theory Spec2Isabelle
  imports Main "HOL-Library.AList" "HOL-Library.Monad_Syntax"
begin

section \<open>Python values\<close>

text \<open>
  The values the plugin stores in its dictionaries: \<open>None\<close>, integers and strings.
  A string is a list of characters (code points below 256); \<open>len\<close> of the source is
  \<open>length\<close> here.
\<close>

datatype pyval = PNone | PInt int | PStr string

definition digit :: "nat \<Rightarrow> char" where
  "digit d = ''0123456789'' ! d"

fun str_nat :: "nat \<Rightarrow> string" where
  "str_nat n = (if n < 10 then [digit n] else str_nat (n div 10) @ [digit (n mod 10)])"

declare str_nat.simps [simp del]

definition str_int :: "int \<Rightarrow> string" where
  "str_int i = (if i < 0 then CHR ''-'' # str_nat (nat (- i)) else str_nat (nat i))"

text \<open>Python's \<open>str(v)\<close>.\<close>

fun str :: "pyval \<Rightarrow> string" where
  "str PNone = ''None''"
| "str (PInt i) = str_int i"
| "str (PStr s) = s"

text \<open>
  A dictionary keeps its keys in insertion order; assigning to a key that is present keeps
  its place, assigning to a new key appends it. \<open>d[k]\<close> on a missing key raises KeyError,
  which is \<open>None\<close> of \<open>map_of\<close>.
\<close>

type_synonym dict = "(string \<times> pyval) list"

definition fromkeys :: "string list \<Rightarrow> pyval \<Rightarrow> dict" where
  "fromkeys ks v = map (\<lambda>k. (k, v)) ks"

definition setitem :: "string \<Rightarrow> pyval \<Rightarrow> dict \<Rightarrow> dict" where
  "setitem k v d = AList.update k v d"

definition getitem :: "dict \<Rightarrow> string \<Rightarrow> pyval option" where
  "getitem d k = map_of d k"

definition JTL_ERR_ATRS :: "string list" where
  "JTL_ERR_ATRS = [''t'', ''lt'', ''ct'', ''ts'', ''s'', ''lb'', ''rc'', ''rm'', ''tn'', ''dt'', ''de'',
     ''by'', ''ng'', ''na'']"

definition JTL_HEADER :: "string list" where
  "JTL_HEADER = [''timeStamp'', ''elapsed'', ''label'', ''responseCode'', ''responseMessage'',
     ''threadName'', ''success'', ''grpThreads'', ''allThreads'', ''Latency'', ''Connect'']"

section \<open>The identity patterns\<close>

text \<open>
  The three regular expressions of \<open>SEARCH_PATTERNS\<close> are sequences of literal characters
  and one lazy group \<open>(.*?)\<close>. \<open>re_match\<close> is the backtracking matcher at the start of
  a string: it returns the text of the group and the text after the match. The lazy group
  first tries to stop, and otherwise consumes one character that is not a newline.
\<close>

datatype re_item = Lit char | LazyGroup

fun re_match :: "re_item list \<Rightarrow> string \<Rightarrow> (string \<times> string) option" where
  "re_match [] s = Some ([], s)"
| "re_match (Lit c # items) [] = None"
| "re_match (Lit c # items) (x # xs) = (if x = c then re_match items xs else None)"
| "re_match (LazyGroup # items) s =
     (case re_match items s of
        Some (g, r) \<Rightarrow> Some ([], r)
      | None \<Rightarrow>
         (case s of
            [] \<Rightarrow> None
          | x # xs \<Rightarrow>
             if x = CHR 0x0A then None
             else map_option (\<lambda>(g, r). (x # g, r)) (re_match (LazyGroup # items) xs)))"

text \<open>
  \<open>findall\<close> scans from the left, collects the group of every match and continues after
  it; where nothing matches it moves on by one character. A match that consumes nothing
  also moves on by one character.
\<close>

function findall :: "re_item list \<Rightarrow> string \<Rightarrow> string list" where
  "findall pat s =
     (case re_match pat s of
        Some (g, r) \<Rightarrow>
          if length r < length s then g # findall pat r
          else g # (case s of [] \<Rightarrow> [] | x # xs \<Rightarrow> findall pat xs)
      | None \<Rightarrow> (case s of [] \<Rightarrow> [] | x # xs \<Rightarrow> findall pat xs))"
  by pat_completeness auto
termination
  by (relation "measure (\<lambda>(pat, s). length s)") auto

declare findall.simps [simp del]

definition SEARCH_file :: "re_item list" where
  "SEARCH_file = [Lit CHR ''('', LazyGroup, Lit CHR ''.'']"

definition SEARCH_class :: "re_item list" where
  "SEARCH_class = [Lit CHR ''.'', LazyGroup, Lit CHR '')'']"

definition SEARCH_method :: "re_item list" where
  "SEARCH_method = [LazyGroup, Lit CHR '' '']"

text \<open>\<open>xs[0] if xs else ""\<close>\<close>

definition first_or_empty :: "string list \<Rightarrow> string" where
  "first_or_empty xs = (case xs of [] \<Rightarrow> [] | x # _ \<Rightarrow> x)"

section \<open>Errors and files\<close>

datatype error = AttributeError | TypeError | KeyError | ValueError | StopIteration
  | RuntimeError string

datatype outcome = Returned | Raised error

text \<open>
  A file object: what has been written to it, in order, and whether it is closed. Opening
  and writing to an open file succeed here; a failing disk is outside the model. Writing to
  a closed file raises ValueError. The tabular log is written row by row (the cells of a
  row, before the quoting of the csv module), the diagnostic document item by item.
\<close>

record 'a pyfile =
  written :: "'a list"
  closed :: bool

definition open_file :: "'a pyfile" where
  "open_file = \<lparr>written = [], closed = False\<rparr>"

definition file_write :: "'a \<Rightarrow> 'a pyfile \<Rightarrow> error + 'a pyfile" where
  "file_write x f = (if closed f then Inl ValueError else Inr (f\<lparr>written := written f @ [x]\<rparr>))"

definition file_close :: "'a pyfile \<Rightarrow> 'a pyfile" where
  "file_close f = f\<lparr>closed := True\<rparr>"

section \<open>csv.DictWriter\<close>

text \<open>
  \<open>writerow\<close> refuses a dictionary with a key outside the field names, then writes the
  value of each field name in order, \<open>str\<close> applied, the empty string for \<open>None\<close> and
  for a missing key.
\<close>

fun cell :: "pyval option \<Rightarrow> string" where
  "cell None = []"
| "cell (Some PNone) = []"
| "cell (Some v) = str v"

definition DictWriter_writerow :: "string list \<Rightarrow> dict \<Rightarrow> string list pyfile \<Rightarrow> error + string list pyfile" where
  "DictWriter_writerow fieldnames rowdict f =
     (let wrong_fields = filter (\<lambda>k. k \<notin> set fieldnames) (map fst rowdict)
      in if wrong_fields \<noteq> [] then Inl ValueError
         else file_write (map (\<lambda>k. cell (getitem rowdict k)) fieldnames) f)"

definition DictWriter_writeheader :: "string list \<Rightarrow> string list pyfile \<Rightarrow> error + string list pyfile" where
  "DictWriter_writeheader fieldnames f =
     DictWriter_writerow fieldnames (zip fieldnames (map PStr fieldnames)) f"

section \<open>Elements and the streaming XML writer\<close>

datatype element = Element (tag: string) (attrib: "(string \<times> string) list") (el_text: "string option")
  (children: "element list")

text \<open>What the incremental writer has put on the stream, one item per call.\<close>

datatype xml_item = Declaration | StartElement string "(string \<times> string) list" | Write element
  | EndElement string

text \<open>
  lxml takes a string as an attribute value or as the text of an element only when it is
  XML compatible, and raises ValueError otherwise: no NUL byte and no control character
  but tab, line feed and carriage return.
\<close>

definition xml_char :: "char \<Rightarrow> bool" where
  "xml_char c = (c = CHR 0x09 \<or> c = CHR 0x0A \<or> c = CHR 0x0D \<or> (32 :: nat) \<le> of_char c)"

definition xml_compatible :: "string \<Rightarrow> bool" where
  "xml_compatible s = list_all xml_char s"

text \<open>
  An attribute name must be an XML name without a colon: a letter or an underscore, then
  letters, digits, dots, hyphens and underscores (the letters of code points below 256).
  Names in the notation \<open>{namespace}name\<close> are not modelled: a name with a brace is not a
  name here.
\<close>

definition name_start_char :: "char \<Rightarrow> bool" where
  "name_start_char c =
     (let n = (of_char c :: nat)
      in (65 \<le> n \<and> n \<le> 90) \<or> (97 \<le> n \<and> n \<le> 122) \<or> n = 95
         \<or> (192 \<le> n \<and> n \<le> 214) \<or> (216 \<le> n \<and> n \<le> 246) \<or> 248 \<le> n)"

definition name_char :: "char \<Rightarrow> bool" where
  "name_char c =
     (let n = (of_char c :: nat)
      in name_start_char c \<or> (48 \<le> n \<and> n \<le> 57) \<or> n = 45 \<or> n = 46 \<or> n = 183)"

fun valid_name :: "string \<Rightarrow> bool" where
  "valid_name [] = False"
| "valid_name (c # cs) = (name_start_char c \<and> list_all name_char cs)"

text \<open>
  \<open>etree.Element(tag, **extra)\<close> takes the attributes in the order of the dictionary. For
  each one the name is checked (ValueError), then the value must be a string (TypeError)
  and XML compatible (ValueError); the first attribute that is refused raises.
\<close>

fun attr_values :: "dict \<Rightarrow> error + (string \<times> string) list" where
  "attr_values [] = Inr []"
| "attr_values ((k, v) # rest) =
     (if \<not> valid_name k then Inl ValueError
      else case v of
             PStr s \<Rightarrow>
               if xml_compatible s
               then (case attr_values rest of Inl e \<Rightarrow> Inl e | Inr a \<Rightarrow> Inr ((k, s) # a))
               else Inl ValueError
           | PNone \<Rightarrow> Inl TypeError
           | PInt i \<Rightarrow> Inl TypeError)"

definition etree_Element :: "string \<Rightarrow> dict \<Rightarrow> error + element" where
  "etree_Element t extra =
     (case attr_values extra of
        Inl e \<Rightarrow> Inl e
      | Inr a \<Rightarrow> Inr (Element t a None []))"

definition el_append :: "element \<Rightarrow> element \<Rightarrow> element" where
  "el_append c e = Element (tag e) (attrib e) (el_text e) (children e @ [c])"

text \<open>\<open>el.text = s\<close>: the string must be XML compatible.\<close>

definition set_text :: "string \<Rightarrow> element \<Rightarrow> error + element" where
  "set_text s e =
     (if xml_compatible s then Inr (Element (tag e) (attrib e) (Some s) (children e))
      else Inl ValueError)"

text \<open>
  The generator \<open>write_element\<close>, seen from outside: after \<open>next\<close> it is suspended at its
  \<open>yield\<close> with the declaration and the start-tag of the root written; \<open>send\<close> writes one
  element and suspends again; \<open>close\<close> raises GeneratorExit at the \<open>yield\<close>, which the
  generator catches, so the root element's block exits and its end-tag is written. An
  exception inside the generator finishes it.
\<close>

datatype gen_state = Suspended | Finished

definition write_element_next :: "xml_item pyfile \<Rightarrow> (error + gen_state) \<times> xml_item pyfile" where
  "write_element_next fds =
     (case file_write Declaration fds of
        Inl e \<Rightarrow> (Inl e, fds)
      | Inr f1 \<Rightarrow>
         (case file_write (StartElement ''testResults'' [(''version'', ''1.2'')]) f1 of
            Inl e \<Rightarrow> (Inl e, f1)
          | Inr f2 \<Rightarrow> (Inr Suspended, f2)))"

fun write_element_send :: "element \<Rightarrow> gen_state \<Rightarrow> xml_item pyfile \<Rightarrow> outcome \<times> gen_state \<times> xml_item pyfile" where
  "write_element_send el Finished fds = (Raised StopIteration, Finished, fds)"
| "write_element_send el Suspended fds =
     (case file_write (Write el) fds of
        Inl e \<Rightarrow> (Raised e, Finished, fds)
      | Inr f1 \<Rightarrow> (Returned, Suspended, f1))"

fun write_element_close :: "gen_state \<Rightarrow> xml_item pyfile \<Rightarrow> outcome \<times> gen_state \<times> xml_item pyfile" where
  "write_element_close Finished fds = (Returned, Finished, fds)"
| "write_element_close Suspended fds =
     (case file_write (EndElement ''testResults'') fds of
        Inl e \<Rightarrow> (Raised e, Finished, fds)
      | Inr f1 \<Rightarrow> (Returned, Finished, f1))"

section \<open>JTLErrorWriter\<close>

text \<open>
  The writer keeps the generator. Its \<open>out_file_fds\<close> is the very file object the plugin
  holds as \<open>err_stream\<close>, so the methods take that file and return it.
\<close>

record JTLErrorWriter =
  xml_writer :: gen_state

definition JTLErrorWriter_init :: "xml_item pyfile \<Rightarrow> (error + JTLErrorWriter) \<times> xml_item pyfile" where
  "JTLErrorWriter_init fds =
     (case write_element_next fds of
        (Inl e, f) \<Rightarrow> (Inl e, f)
      | (Inr g, f) \<Rightarrow> (Inr \<lparr>xml_writer = g\<rparr>, f))"

text \<open>
  \<open>etree.Element(t)\<close> followed by \<open>set("class", "java.lang.String")\<close>, for the constant
  tags of the source.
\<close>

definition java_lang_String :: "string \<Rightarrow> element" where
  "java_lang_String t = Element t [(''class'', ''java.lang.String'')] None []"

definition gen_resp_header :: element where
  "gen_resp_header = java_lang_String ''responseHeader''"

definition gen_req_header :: element where
  "gen_req_header = java_lang_String ''requestHeader''"

definition gen_resp_data :: "string \<Rightarrow> error + element" where
  "gen_resp_data data = set_text data (java_lang_String ''responseData'')"

definition gen_cookies :: element where
  "gen_cookies = java_lang_String ''cookies''"

definition gen_method :: element where
  "gen_method = java_lang_String ''method''"

definition gen_queryString :: element where
  "gen_queryString = java_lang_String ''queryString''"

text \<open>The text of an element must be a string (TypeError otherwise) or \<open>None\<close>.\<close>

fun gen_url :: "pyval \<Rightarrow> error + element" where
  "gen_url (PStr url) = set_text url (Element ''java.net.URL'' [] None [])"
| "gen_url PNone = Inr (Element ''java.net.URL'' [] None [])"
| "gen_url (PInt i) = Inl TypeError"

text \<open>
  The children are built and appended in the order of the source, so the first call that
  raises decides the exception: the element itself, then the response data, then the URL.
\<close>

definition gen_httpSample :: "dict \<Rightarrow> pyval \<Rightarrow> string \<Rightarrow> error + element" where
  "gen_httpSample sample url resp_data =
     (case etree_Element ''httpSample'' sample of
        Inl e \<Rightarrow> Inl e
      | Inr sample_element \<Rightarrow>
         (let e1 = el_append gen_resp_header sample_element;
              e2 = el_append gen_req_header e1
          in case gen_resp_data resp_data of
               Inl e \<Rightarrow> Inl e
             | Inr resp_data_element \<Rightarrow>
                (let e3 = el_append resp_data_element e2;
                     e4 = el_append gen_cookies e3;
                     e5 = el_append gen_method e4;
                     e6 = el_append gen_queryString e5
                 in case gen_url url of
                      Inl e \<Rightarrow> Inl e
                    | Inr url_element \<Rightarrow> Inr (el_append url_element e6))))"

definition add_sample :: "dict \<Rightarrow> pyval \<Rightarrow> string \<Rightarrow> JTLErrorWriter \<Rightarrow> xml_item pyfile
    \<Rightarrow> outcome \<times> JTLErrorWriter \<times> xml_item pyfile" where
  "add_sample sample url resp_data w fds =
     (case gen_httpSample sample url resp_data of
        Inl e \<Rightarrow> (Raised e, w, fds)
      | Inr new_sample \<Rightarrow>
         (case write_element_send new_sample (xml_writer w) fds of
            (r, g, f) \<Rightarrow> (r, w\<lparr>xml_writer := g\<rparr>, f)))"

definition JTLErrorWriter_close :: "JTLErrorWriter \<Rightarrow> xml_item pyfile \<Rightarrow> outcome \<times> JTLErrorWriter \<times> xml_item pyfile" where
  "JTLErrorWriter_close w fds =
     (case write_element_close (xml_writer w) fds of
        (r, g, f) \<Rightarrow> (r, w\<lparr>xml_writer := g\<rparr>, f))"

section \<open>TaurusNosePlugin\<close>

text \<open>
  The \<open>err\<close> triple that nose hands to \<open>addError\<close> and \<open>addFailure\<close>, as \<open>stopTest\<close>
  reads it: \<open>err[0].__name__\<close>, \<open>err[1]\<close> and the list of strings
  \<open>traceback.format_tb(err[2])\<close>. The value \<open>err[1]\<close> is the exception instance that was
  raised (given here by its message), or a string where something upstream has formatted
  it.
\<close>

datatype err_value = Instance string | Message string

record exc_info =
  exc_name :: string
  exc_value :: err_value
  format_tb :: "string list"

text \<open>
  The plugin object. \<open>out_stream\<close> and \<open>err_stream\<close> do not exist before \<open>begin\<close>
  (\<open>None\<close> here); \<open>csv_writer\<close> is the DictWriter on \<open>out_stream\<close>, given by its field
  names. \<open>_time\<close> is assigned by \<open>startTest\<close> just before \<open>jtl_dict\<close> and is not kept:
  the clock is read in floating point, and the two integers the source derives from it,
  \<open>int(1000 * self._time)\<close> and \<open>int(1000 * (time() - self._time))\<close>, are arguments of
  \<open>startTest\<close> and \<open>stopTest\<close>. \<open>stdout\<close> is the standard output of the process.
\<close>

record plugin =
  module_name' :: "string option"
  method_name :: "string option"
  output_file :: string
  err_file :: string
  test_count :: int
  success :: int
  csv_writer :: "string list option"
  jtl_dict :: "dict option"
  error_writer :: "JTLErrorWriter option"
  last_err :: "exc_info option"
  out_stream :: "string list pyfile option"
  err_stream :: "xml_item pyfile option"
  stdout :: "string list"

definition init :: "string \<Rightarrow> string \<Rightarrow> plugin" where
  "init output_file' err_file' =
     \<lparr>module_name' = None, method_name = None, output_file = output_file', err_file = err_file',
      test_count = 0, success = 0, csv_writer = None, jtl_dict = None, error_writer = None,
      last_err = None, out_stream = None, err_stream = None, stdout = []\<rparr>"

text \<open>Item assignment on \<open>jtl_dict\<close> while it is still \<open>None\<close> raises TypeError.\<close>

definition addError :: "exc_info \<Rightarrow> plugin \<Rightarrow> outcome \<times> plugin" where
  "addError err p =
     (case jtl_dict p of
        None \<Rightarrow> (Raised TypeError, p)
      | Some d \<Rightarrow>
          (Returned, p\<lparr>jtl_dict := Some (setitem ''responseCode'' (PStr ''500'') d),
                       last_err := Some err\<rparr>))"

definition addFailure :: "exc_info \<Rightarrow> plugin \<Rightarrow> outcome \<times> plugin" where
  "addFailure err p =
     (case jtl_dict p of
        None \<Rightarrow> (Raised TypeError, p)
      | Some d \<Rightarrow>
          (Returned, p\<lparr>jtl_dict := Some (setitem ''responseCode'' (PStr ''404'') d),
                       last_err := Some err\<rparr>))"

definition addSkip :: "plugin \<Rightarrow> outcome \<times> plugin" where
  "addSkip p =
     (case jtl_dict p of
        None \<Rightarrow> (Raised TypeError, p)
      | Some d \<Rightarrow> (Returned, p\<lparr>jtl_dict := Some (setitem ''responseCode'' (PStr ''300'') d)\<rparr>))"

definition addSuccess :: "plugin \<Rightarrow> outcome \<times> plugin" where
  "addSuccess p =
     (case jtl_dict p of
        None \<Rightarrow> (Raised TypeError, p)
      | Some d \<Rightarrow>
          (Returned,
           p\<lparr>jtl_dict := Some (setitem ''responseMessage'' (PStr ''OK'')
                                 (setitem ''success'' (PStr ''true'')
                                   (setitem ''responseCode'' (PStr ''200'') d))),
             success := success p + 1\<rparr>))"

definition begin' :: "plugin \<Rightarrow> outcome \<times> plugin" where
  "begin' p =
     (let p1 = p\<lparr>out_stream := Some open_file, csv_writer := Some JTL_HEADER\<rparr>
      in case JTLErrorWriter_init open_file of
           (Inl e, fds) \<Rightarrow> (Raised e, p1\<lparr>err_stream := Some fds\<rparr>)
         | (Inr w, fds) \<Rightarrow>
            (let p2 = p1\<lparr>err_stream := Some fds, error_writer := Some w\<rparr>
             in case DictWriter_writeheader JTL_HEADER open_file of
                  Inl e \<Rightarrow> (Raised e, p2)
                | Inr f \<Rightarrow> (Returned, p2\<lparr>out_stream := Some f, module_name' := Some []\<rparr>)))"

text \<open>
  \<open>finalize\<close>: the three closes in the order of the source, then the test on the counter.
  \<open>begin\<close> assigns the streams together with the writer; a state with the writer and
  without a stream raises AttributeError at the missing attribute.
\<close>

definition finalize :: "plugin \<Rightarrow> outcome \<times> plugin" where
  "finalize p =
     (case error_writer p of
        None \<Rightarrow> (Raised AttributeError, p)
      | Some w \<Rightarrow>
         (case err_stream p of
            None \<Rightarrow> (Raised AttributeError, p)
          | Some fds \<Rightarrow>
             (case JTLErrorWriter_close w fds of
                (Raised e, w', fds') \<Rightarrow>
                  (Raised e, p\<lparr>error_writer := Some w', err_stream := Some fds'\<rparr>)
              | (Returned, w', fds') \<Rightarrow>
                 (let p1 = p\<lparr>error_writer := Some w', err_stream := Some fds'\<rparr>
                  in case out_stream p1 of
                       None \<Rightarrow> (Raised AttributeError, p1)
                     | Some f \<Rightarrow>
                        (let p2 = p1\<lparr>out_stream := Some (file_close f),
                                     err_stream := Some (file_close fds')\<rparr>
                         in if test_count p2 = 0
                            then (Raised (RuntimeError ''Nothing to test.''), p2)
                            else (Returned, p2))))))"

definition py_of_opt :: "string option \<Rightarrow> pyval" where
  "py_of_opt x = (case x of None \<Rightarrow> PNone | Some s \<Rightarrow> PStr s)"

definition startTest :: "string \<Rightarrow> int \<Rightarrow> plugin \<Rightarrow> outcome \<times> plugin" where
  "startTest full_test_name timeStamp p =
     (let file_name = first_or_empty (findall SEARCH_file full_test_name);
          class_name = first_or_empty (findall SEARCH_class full_test_name);
          method_name' = first_or_empty (findall SEARCH_method full_test_name);
          p1 = (if module_name' p \<noteq> Some (file_name @ ''.'' @ class_name)
                then p\<lparr>module_name' := Some (file_name @ ''.'' @ class_name)\<rparr> else p);
          p2 = p1\<lparr>method_name := Some method_name', last_err := None\<rparr>;
          d0 = fromkeys JTL_HEADER (PInt 0);
          d1 = setitem ''timeStamp'' (PInt timeStamp) d0;
          d2 = setitem ''label'' (py_of_opt (method_name p2)) d1;
          d3 = setitem ''threadName'' (py_of_opt (module_name' p2)) d2;
          d4 = setitem ''grpThreads'' (PInt 1) d3;
          d5 = setitem ''allThreads'' (PInt 1) d4;
          d6 = setitem ''success'' (PStr ''false'') d5
      in (Returned, p2\<lparr>jtl_dict := Some d6\<rparr>))"

text \<open>Lines 160 to 174 of the source: the attributes of the diagnostic entry.\<close>

definition build_sample :: "dict \<Rightarrow> string \<Rightarrow> string \<Rightarrow> dict option" where
  "build_sample d exc_type_name trace =
     do {
       let sample = fromkeys JTL_ERR_ATRS PNone;
       t \<leftarrow> getitem d ''elapsed'';
       let sample = setitem ''t'' t sample;
       lt \<leftarrow> getitem d ''Latency'';
       let sample = setitem ''lt'' (PStr (str lt)) sample;
       ct \<leftarrow> getitem d ''Connect'';
       let sample = setitem ''ct'' (PStr (str ct)) sample;
       ts \<leftarrow> getitem d ''timeStamp'';
       let sample = setitem ''ts'' (PStr (str ts)) sample;
       s \<leftarrow> getitem d ''success'';
       let sample = setitem ''s'' s sample;
       lb \<leftarrow> getitem d ''label'';
       let sample = setitem ''lb'' lb sample;
       rc \<leftarrow> getitem d ''responseCode'';
       let sample = setitem ''rc'' rc sample;
       let sample = setitem ''rm'' (PStr exc_type_name) sample;
       tn \<leftarrow> getitem d ''threadName'';
       let sample = setitem ''tn'' tn sample;
       let sample = setitem ''dt'' (PStr ''text'') sample;
       let sample = setitem ''de'' (PStr []) sample;
       let sample = setitem ''by'' (PStr (str_int (int (length trace)))) sample;
       let sample = setitem ''ng'' (PStr ''1'') sample;
       let sample = setitem ''na'' (PStr ''1'') sample;
       Some sample
     }"

text \<open>
  Line 157: the stack text, a newline, the value of the exception. Adding an exception
  instance to a string raises TypeError.
\<close>

definition trace_of :: "exc_info \<Rightarrow> error + string" where
  "trace_of err =
     (case exc_value err of
        Instance m \<Rightarrow> Inl TypeError
      | Message s \<Rightarrow> Inr (concat (format_tb err) @ [CHR 0x0A] @ s))"

text \<open>Lines 155 to 176: the block under \<open>if self.last_err is not None\<close>.\<close>

definition report_last_err :: "plugin \<Rightarrow> outcome \<times> plugin" where
  "report_last_err p =
     (case last_err p of
        None \<Rightarrow> (Returned, p)
      | Some err \<Rightarrow>
         (case jtl_dict p of
            None \<Rightarrow> (Raised TypeError, p)
          | Some d \<Rightarrow>
             (let exc_type_name = exc_name err
              in case trace_of err of
                   Inl e \<Rightarrow> (Raised e, p)
                 | Inr trace \<Rightarrow>
                    (let d' = setitem ''responseMessage'' (PStr exc_type_name) d;
                         p1 = p\<lparr>jtl_dict := Some d'\<rparr>
                     in case build_sample d' exc_type_name trace of
                          None \<Rightarrow> (Raised KeyError, p1)
                        | Some sample \<Rightarrow>
                           (case error_writer p1 of
                              None \<Rightarrow> (Raised AttributeError, p1)
                            | Some w \<Rightarrow>
                               (case err_stream p1 of
                                  None \<Rightarrow> (Raised AttributeError, p1)
                                | Some fds \<Rightarrow>
                                   (case getitem d' ''label'' of
                                      None \<Rightarrow> (Raised KeyError, p1)
                                    | Some url \<Rightarrow>
                                       (case add_sample sample url trace w fds of
                                          (r, w', fds') \<Rightarrow>
                                            (r, p1\<lparr>error_writer := Some w',
                                                   err_stream := Some fds'\<rparr>)))))))))"

definition pct_s :: "string option \<Rightarrow> string" where
  "pct_s x = (case x of None \<Rightarrow> ''None'' | Some s \<Rightarrow> s)"

definition report_line :: "plugin \<Rightarrow> string" where
  "report_line p =
     pct_s (module_name' p) @ ''.'' @ pct_s (method_name p) @ '',Total:'' @ str_int (test_count p)
       @ '' Pass:'' @ str_int (success p) @ '' Failed:'' @ str_int (test_count p - success p)
       @ [CHR 0x0A]"

text \<open>
  Lines 178 to 184: the row, the report on standard output, the flush (which leaves the
  content as it is).
\<close>

definition write_row :: "plugin \<Rightarrow> outcome \<times> plugin" where
  "write_row p =
     (case csv_writer p of
        None \<Rightarrow> (Raised AttributeError, p)
      | Some fieldnames \<Rightarrow>
         (case out_stream p of
            None \<Rightarrow> (Raised AttributeError, p)
          | Some f \<Rightarrow>
             (case jtl_dict p of
                None \<Rightarrow> (Raised AttributeError, p)
              | Some d \<Rightarrow>
                 (case DictWriter_writerow fieldnames d f of
                    Inl e \<Rightarrow> (Raised e, p)
                  | Inr f' \<Rightarrow>
                      (Returned, p\<lparr>out_stream := Some f',
                                   stdout := stdout p @ [report_line p]\<rparr>)))))"

text \<open>
  \<open>stopTest\<close>: the counter first; reading \<open>self._time\<close> before any \<open>startTest\<close> raises
  AttributeError, and that is exactly when \<open>jtl_dict\<close> is still \<open>None\<close>.
\<close>

definition stopTest :: "int \<Rightarrow> plugin \<Rightarrow> outcome \<times> plugin" where
  "stopTest elapsed p =
     (let p1 = p\<lparr>test_count := test_count p + 1\<rparr>
      in case jtl_dict p1 of
           None \<Rightarrow> (Raised AttributeError, p1)
         | Some d \<Rightarrow>
            (let p2 = p1\<lparr>jtl_dict := Some (setitem ''elapsed'' (PStr (str_int elapsed)) d)\<rparr>
             in case report_last_err p2 of
                  (Raised e, p3) \<Rightarrow> (Raised e, p3)
                | (Returned, p3) \<Rightarrow> write_row p3))"

section \<open>Runs\<close>

text \<open>
  The calls the test framework makes on the plugin, one after the other. A call that raises
  leaves its state behind and the framework goes on with its next call, so a run gives the
  outcome of each call and the state after the last.
\<close>

datatype signal = Error exc_info | Failure exc_info | Skip | Success

datatype callback = Begin | StartTest string int | Signal signal | StopTest int | Finalize

fun send_signal :: "signal \<Rightarrow> plugin \<Rightarrow> outcome \<times> plugin" where
  "send_signal (Error err) p = addError err p"
| "send_signal (Failure err) p = addFailure err p"
| "send_signal Skip p = addSkip p"
| "send_signal Success p = addSuccess p"

fun call :: "callback \<Rightarrow> plugin \<Rightarrow> outcome \<times> plugin" where
  "call Begin p = begin' p"
| "call (StartTest name ts) p = startTest name ts p"
| "call (Signal s) p = send_signal s p"
| "call (StopTest el) p = stopTest el p"
| "call Finalize p = finalize p"

fun run :: "callback list \<Rightarrow> plugin \<Rightarrow> outcome list \<times> plugin" where
  "run [] p = ([], p)"
| "run (c # cs) p =
     (case call c p of
        (r, p') \<Rightarrow> (case run cs p' of (rs, p'') \<Rightarrow> (r # rs, p'')))"

text \<open>
  One test of a strictly sequential run: its identity string, the time stamp taken at its
  start, the outcome signals it receives, the elapsed time taken at its stop.
\<close>

record test =
  identity :: string
  started_ms :: int
  signals :: "signal list"
  elapsed_ms :: int

definition test_calls :: "test \<Rightarrow> callback list" where
  "test_calls t = StartTest (identity t) (started_ms t) # map Signal (signals t) @ [StopTest (elapsed_ms t)]"

definition suite_calls :: "test list \<Rightarrow> callback list" where
  "suite_calls ts = concat (map test_calls ts)"

text \<open>What a state shows of the two outputs.\<close>

definition csv_rows :: "plugin \<Rightarrow> string list list" where
  "csv_rows p = (case out_stream p of None \<Rightarrow> [] | Some f \<Rightarrow> written f)"

definition xml_items :: "plugin \<Rightarrow> xml_item list" where
  "xml_items p = (case err_stream p of None \<Rightarrow> [] | Some f \<Rightarrow> written f)"

fun written_element :: "xml_item \<Rightarrow> element option" where
  "written_element (Write el) = Some el"
| "written_element other = None"

definition entries :: "plugin \<Rightarrow> element list" where
  "entries p = List.map_filter written_element (xml_items p)"

text \<open>
  The stop of a test returns: the last call of the test, run on its own after \<open>begin\<close>,
  does not raise.
\<close>

definition stop_returns :: "test \<Rightarrow> bool" where
  "stop_returns t = (last (fst (run (Begin # test_calls t) (init [] []))) = Returned)"

section \<open>The diagnostic document as a token stream\<close>

text \<open>
  The serialisation of the items: an element is its start-tag, its text if it has one, its
  children and its end-tag. A document is well formed when it is the declaration followed
  by one root element whose tags balance, with nothing after the root's end-tag.
\<close>

datatype xml_token = TDecl | TStart string "(string \<times> string) list" | TText string | TEnd string

fun element_tokens :: "element \<Rightarrow> xml_token list" where
  "element_tokens (Element t a x cs) =
     TStart t a # (case x of None \<Rightarrow> [] | Some s \<Rightarrow> [TText s])
       @ concat (map element_tokens cs) @ [TEnd t]"

fun item_tokens :: "xml_item \<Rightarrow> xml_token list" where
  "item_tokens Declaration = [TDecl]"
| "item_tokens (StartElement t a) = [TStart t a]"
| "item_tokens (Write el) = element_tokens el"
| "item_tokens (EndElement t) = [TEnd t]"

definition document_tokens :: "xml_item list \<Rightarrow> xml_token list" where
  "document_tokens items = concat (map item_tokens items)"

text \<open>\<open>balanced stack ts\<close>: the tokens close the open elements of the stack, innermost first,
  and end with the outermost end-tag.\<close>

fun balanced :: "string list \<Rightarrow> xml_token list \<Rightarrow> bool" where
  "balanced [] ts = (ts = [])"
| "balanced (t # stack) [] = False"
| "balanced (t # stack) (TDecl # ts) = False"
| "balanced (t # stack) (TStart n a # ts) = balanced (n # t # stack) ts"
| "balanced (t # stack) (TText s # ts) = balanced (t # stack) ts"
| "balanced (t # stack) (TEnd n # ts) = (n = t \<and> balanced stack ts)"

fun well_formed :: "xml_token list \<Rightarrow> bool" where
  "well_formed (TDecl # TStart n a # ts) = balanced [n] ts"
| "well_formed ts = False"

text \<open>
  Any number of \<open>add_sample\<close> calls on a writer, whatever each of them returns or raises.
\<close>

fun add_samples :: "(dict \<times> pyval \<times> string) list \<Rightarrow> JTLErrorWriter \<Rightarrow> xml_item pyfile
    \<Rightarrow> JTLErrorWriter \<times> xml_item pyfile" where
  "add_samples [] w fds = (w, fds)"
| "add_samples ((sample, url, resp_data) # rest) w fds =
     (case add_sample sample url resp_data w fds of (r, w', fds') \<Rightarrow> add_samples rest w' fds')"

text \<open>The elements that \<open>gen_httpSample\<close> builds out of a list of samples.\<close>

fun built :: "(dict \<times> pyval \<times> string) list \<Rightarrow> element list" where
  "built [] = []"
| "built ((sample, url, resp_data) # rest) =
     (case gen_httpSample sample url resp_data of
        Inl e \<Rightarrow> built rest
      | Inr el \<Rightarrow> el # built rest)"

section \<open>The effect of one test, in closed form\<close>

text \<open>
  The parts of the identity string, the code each signal writes, and what a sequence of
  signals leaves in the three fields they write and in \<open>last_err\<close>.
\<close>

definition label_of :: "string \<Rightarrow> string" where
  "label_of s = first_or_empty (findall SEARCH_method s)"

definition thread_name_of :: "string \<Rightarrow> string" where
  "thread_name_of s =
     first_or_empty (findall SEARCH_file s) @ ''.'' @ first_or_empty (findall SEARCH_class s)"

fun signal_code :: "signal \<Rightarrow> string" where
  "signal_code (Error err) = ''500''"
| "signal_code (Failure err) = ''404''"
| "signal_code Skip = ''300''"
| "signal_code Success = ''200''"

fun signal_exc :: "signal \<Rightarrow> exc_info option" where
  "signal_exc (Error err) = Some err"
| "signal_exc (Failure err) = Some err"
| "signal_exc Skip = None"
| "signal_exc Success = None"

fun code_after :: "signal list \<Rightarrow> pyval \<Rightarrow> pyval" where
  "code_after [] v = v"
| "code_after (s # ss) v = code_after ss (PStr (signal_code s))"

fun flag_after :: "signal list \<Rightarrow> pyval \<Rightarrow> pyval" where
  "flag_after [] v = v"
| "flag_after (s # ss) v = flag_after ss (if s = Success then PStr ''true'' else v)"

fun message_after :: "signal list \<Rightarrow> pyval \<Rightarrow> pyval" where
  "message_after [] v = v"
| "message_after (s # ss) v = message_after ss (if s = Success then PStr ''OK'' else v)"

fun stash_after :: "signal list \<Rightarrow> exc_info option \<Rightarrow> exc_info option" where
  "stash_after [] e = e"
| "stash_after (s # ss) e = stash_after ss (case signal_exc s of None \<Rightarrow> e | Some err \<Rightarrow> Some err)"

definition successes :: "signal list \<Rightarrow> int" where
  "successes ss = int (length (filter (\<lambda>s. s = Success) ss))"

definition mk_dict :: "pyval \<Rightarrow> pyval \<Rightarrow> pyval \<Rightarrow> pyval \<Rightarrow> pyval \<Rightarrow> pyval \<Rightarrow> pyval \<Rightarrow> dict" where
  "mk_dict ts el lb rc rm tn sc =
     [(''timeStamp'', ts), (''elapsed'', el), (''label'', lb), (''responseCode'', rc),
      (''responseMessage'', rm), (''threadName'', tn), (''success'', sc),
      (''grpThreads'', PInt 1), (''allThreads'', PInt 1), (''Latency'', PInt 0),
      (''Connect'', PInt 0)]"

definition sample_element :: "int \<Rightarrow> string \<Rightarrow> string \<Rightarrow> string \<Rightarrow> string \<Rightarrow> string \<Rightarrow> string \<Rightarrow> string \<Rightarrow> element" where
  "sample_element ts el lb rc tn sc rm trace =
     Element ''httpSample''
       [(''t'', el), (''lt'', ''0''), (''ct'', ''0''), (''ts'', str_int ts), (''s'', sc),
        (''lb'', lb), (''rc'', rc), (''rm'', rm), (''tn'', tn),
        (''dt'', ''text''), (''de'', []), (''by'', str_int (int (length trace))),
        (''ng'', ''1''), (''na'', ''1'')]
       None
       [gen_resp_header, gen_req_header,
        Element ''responseData'' [(''class'', ''java.lang.String'')] (Some trace) [],
        gen_cookies, gen_method, gen_queryString,
        Element ''java.net.URL'' [] (Some lb) []]"

text \<open>
  The trace of a stashed exception when line 157 does not raise, and the condition under
  which the stop of a test returns: nothing is stashed, or the value of the stashed
  exception is a string and the label, the name of the exception's type, the thread-group
  name and the trace are XML compatible.
\<close>

definition trace_text :: "exc_info \<Rightarrow> string" where
  "trace_text err = (case trace_of err of Inl e \<Rightarrow> [] | Inr trace \<Rightarrow> trace)"

definition reportable :: "test \<Rightarrow> exc_info \<Rightarrow> bool" where
  "reportable t err =
     (case trace_of err of
        Inl e \<Rightarrow> False
      | Inr trace \<Rightarrow>
          xml_compatible (label_of (identity t)) \<and> xml_compatible (exc_name err)
          \<and> xml_compatible (thread_name_of (identity t)) \<and> xml_compatible trace)"

definition completes :: "test \<Rightarrow> bool" where
  "completes t = (case stash_after (signals t) None of None \<Rightarrow> True | Some err \<Rightarrow> reportable t err)"

definition stop_outcome :: "test \<Rightarrow> outcome" where
  "stop_outcome t =
     (case stash_after (signals t) None of
        None \<Rightarrow> Returned
      | Some err \<Rightarrow>
         (case trace_of err of
            Inl e \<Rightarrow> Raised e
          | Inr trace \<Rightarrow> if reportable t err then Returned else Raised ValueError))"

definition test_outcomes :: "test \<Rightarrow> outcome list" where
  "test_outcomes t = replicate (Suc (length (signals t))) Returned @ [stop_outcome t]"

definition entry_of :: "test \<Rightarrow> exc_info \<Rightarrow> element" where
  "entry_of t err =
     sample_element (started_ms t) (str_int (elapsed_ms t)) (label_of (identity t))
       (str (code_after (signals t) (PInt 0))) (thread_name_of (identity t))
       (str (flag_after (signals t) (PStr ''false''))) (exc_name err) (trace_text err)"

definition entries_of :: "test \<Rightarrow> element list" where
  "entries_of t = (case stash_after (signals t) None of None \<Rightarrow> [] | Some err \<Rightarrow> [entry_of t err])"

definition row_of :: "test \<Rightarrow> string list" where
  "row_of t =
     [str_int (started_ms t), str_int (elapsed_ms t), label_of (identity t),
      str (code_after (signals t) (PInt 0)),
      (case stash_after (signals t) None of
         None \<Rightarrow> str (message_after (signals t) (PInt 0))
       | Some err \<Rightarrow> exc_name err),
      thread_name_of (identity t),
      str (flag_after (signals t) (PStr ''false'')),
      ''1'', ''1'', ''0'', ''0'']"

text \<open>\<open>begin\<close> has run and nothing has been closed.\<close>

definition ready :: "plugin \<Rightarrow> bool" where
  "ready p =
     (csv_writer p = Some JTL_HEADER
      \<and> (case out_stream p of None \<Rightarrow> False | Some f \<Rightarrow> \<not> closed f)
      \<and> (case error_writer p of None \<Rightarrow> False | Some w \<Rightarrow> xml_writer w = Suspended)
      \<and> (case err_stream p of None \<Rightarrow> False | Some f \<Rightarrow> \<not> closed f))"

section \<open>Outcomes of a test\<close>

text \<open>
  A failure or error signal; a test whose last signal before its stop is one; a test that
  received one at any point between its start and its stop.
\<close>

fun failure_or_error :: "signal \<Rightarrow> bool" where
  "failure_or_error (Error err) = True"
| "failure_or_error (Failure err) = True"
| "failure_or_error Skip = False"
| "failure_or_error Success = False"

definition outcome_failed :: "test \<Rightarrow> bool" where
  "outcome_failed t = (case rev (signals t) of [] \<Rightarrow> False | s # _ \<Rightarrow> failure_or_error s)"

definition received_failure :: "test \<Rightarrow> bool" where
  "received_failure t = list_ex failure_or_error (signals t)"

section \<open>Lemmas: dictionaries, signals and the calls\<close>

lemma getitem_mk_dict:
  "getitem (mk_dict ts el lb rc rm tn sc) ''timeStamp'' = Some ts"
  "getitem (mk_dict ts el lb rc rm tn sc) ''elapsed'' = Some el"
  "getitem (mk_dict ts el lb rc rm tn sc) ''label'' = Some lb"
  "getitem (mk_dict ts el lb rc rm tn sc) ''responseCode'' = Some rc"
  "getitem (mk_dict ts el lb rc rm tn sc) ''responseMessage'' = Some rm"
  "getitem (mk_dict ts el lb rc rm tn sc) ''threadName'' = Some tn"
  "getitem (mk_dict ts el lb rc rm tn sc) ''success'' = Some sc"
  "getitem (mk_dict ts el lb rc rm tn sc) ''grpThreads'' = Some (PInt 1)"
  "getitem (mk_dict ts el lb rc rm tn sc) ''allThreads'' = Some (PInt 1)"
  "getitem (mk_dict ts el lb rc rm tn sc) ''Latency'' = Some (PInt 0)"
  "getitem (mk_dict ts el lb rc rm tn sc) ''Connect'' = Some (PInt 0)"
  by (simp_all add: getitem_def mk_dict_def)

lemma setitem_mk_dict:
  "setitem ''elapsed'' v (mk_dict ts el lb rc rm tn sc) = mk_dict ts v lb rc rm tn sc"
  "setitem ''responseCode'' v (mk_dict ts el lb rc rm tn sc) = mk_dict ts el lb v rm tn sc"
  "setitem ''responseMessage'' v (mk_dict ts el lb rc rm tn sc) = mk_dict ts el lb rc v tn sc"
  "setitem ''success'' v (mk_dict ts el lb rc rm tn sc) = mk_dict ts el lb rc rm tn v"
  by (simp_all add: setitem_def mk_dict_def)

lemma start_dict:
  "setitem ''success'' (PStr ''false'')
     (setitem ''allThreads'' (PInt 1)
       (setitem ''grpThreads'' (PInt 1)
         (setitem ''threadName'' tn
           (setitem ''label'' lb
             (setitem ''timeStamp'' ts (fromkeys JTL_HEADER (PInt 0)))))))
   = mk_dict ts (PInt 0) lb (PInt 0) (PInt 0) tn (PStr ''false'')"
  by (simp add: setitem_def mk_dict_def fromkeys_def JTL_HEADER_def)

lemma startTest_eq:
  "startTest n ts p =
     (Returned, p\<lparr>module_name' := Some (thread_name_of n), method_name := Some (label_of n),
                  last_err := None,
                  jtl_dict := Some (mk_dict (PInt ts) (PInt 0) (PStr (label_of n)) (PInt 0) (PInt 0)
                     (PStr (thread_name_of n)) (PStr ''false''))\<rparr>)"
  by (cases p) (simp add: startTest_def Let_def start_dict label_of_def thread_name_of_def py_of_opt_def)

lemma send_signal_eq:
  assumes "jtl_dict p = Some (mk_dict ts el lb rc rm tn sc)"
  shows "send_signal s p =
     (Returned, p\<lparr>jtl_dict := Some (mk_dict ts el lb (PStr (signal_code s))
                      (if s = Success then PStr ''OK'' else rm) tn
                      (if s = Success then PStr ''true'' else sc)),
                  last_err := (case signal_exc s of None \<Rightarrow> last_err p | Some err \<Rightarrow> Some err),
                  success := success p + (if s = Success then 1 else 0)\<rparr>)"
  using assms
  by (cases p; cases s)
     (simp_all add: addError_def addFailure_def addSkip_def addSuccess_def setitem_mk_dict)

lemma run_append:
  "run (cs @ ds) p =
     (case run cs p of (rs, p') \<Rightarrow> (case run ds p' of (ss, p'') \<Rightarrow> (rs @ ss, p'')))"
  by (induction cs arbitrary: p) (auto split: prod.splits)

lemma successes_Cons: "successes (s # ss) = (if s = Success then 1 else 0) + successes ss"
  by (simp add: successes_def)

lemma run_signals_eq:
  assumes "jtl_dict p = Some (mk_dict ts el lb rc rm tn sc)"
  shows "run (map Signal ss) p =
     (replicate (length ss) Returned,
      p\<lparr>jtl_dict := Some (mk_dict ts el lb (code_after ss rc) (message_after ss rm) tn
                       (flag_after ss sc)),
        last_err := stash_after ss (last_err p),
        success := success p + successes ss\<rparr>)"
  using assms
proof (induction ss arbitrary: p rc rm sc)
  case Nil
  then show ?case by (cases p) (simp add: successes_def)
next
  case (Cons s ss)
  let ?q = "p\<lparr>jtl_dict := Some (mk_dict ts el lb (PStr (signal_code s))
                      (if s = Success then PStr ''OK'' else rm) tn
                      (if s = Success then PStr ''true'' else sc)),
                  last_err := (case signal_exc s of None \<Rightarrow> last_err p | Some err \<Rightarrow> Some err),
                  success := success p + (if s = Success then 1 else 0)\<rparr>"
  have step: "send_signal s p = (Returned, ?q)"
    by (rule send_signal_eq [OF Cons.prems])
  have q: "jtl_dict ?q = Some (mk_dict ts el lb (PStr (signal_code s))
                      (if s = Success then PStr ''OK'' else rm) tn
                      (if s = Success then PStr ''true'' else sc))"
    by simp
  show ?case
    by (simp add: step Cons.IH [OF q] successes_Cons add.assoc)
qed

lemma readyE:
  assumes "ready p"
  obtains f w x where "csv_writer p = Some JTL_HEADER" "out_stream p = Some f" "\<not> closed f"
    "error_writer p = Some w" "xml_writer w = Suspended" "err_stream p = Some x" "\<not> closed x"
  using assms by (auto simp: ready_def split: option.splits)

lemma keys_mk_dict: "map fst (mk_dict ts el lb rc rm tn sc) = JTL_HEADER"
  by (simp add: mk_dict_def JTL_HEADER_def)

lemma writerow_mk_dict:
  assumes "\<not> closed f"
  shows "DictWriter_writerow JTL_HEADER (mk_dict ts el lb rc rm tn sc) f =
     Inr (f\<lparr>written := written f @
       [[cell (Some ts), cell (Some el), cell (Some lb), cell (Some rc), cell (Some rm),
         cell (Some tn), cell (Some sc), ''1'', ''1'', ''0'', ''0'']]\<rparr>)"
proof -
  have cells: "map (\<lambda>k. cell (getitem (mk_dict ts el lb rc rm tn sc) k)) JTL_HEADER =
       [cell (Some ts), cell (Some el), cell (Some lb), cell (Some rc), cell (Some rm),
         cell (Some tn), cell (Some sc), str_int 1, str_int 1, str_int 0, str_int 0]"
    by (simp add: JTL_HEADER_def getitem_mk_dict)
  have digits: "str_int 1 = ''1''" "str_int 0 = ''0''"
    by (simp_all add: str_int_def str_nat.simps digit_def)
  show ?thesis
    using assms
    by (simp add: DictWriter_writerow_def keys_mk_dict cells digits file_write_def)
qed

lemma write_row_eq:
  assumes "csv_writer p = Some JTL_HEADER" "out_stream p = Some f" "\<not> closed f"
    and "jtl_dict p = Some (mk_dict ts el lb rc rm tn sc)"
  shows "write_row p =
     (Returned, p\<lparr>out_stream := Some (f\<lparr>written := written f @
       [[cell (Some ts), cell (Some el), cell (Some lb), cell (Some rc), cell (Some rm),
         cell (Some tn), cell (Some sc), ''1'', ''1'', ''0'', ''0'']]\<rparr>),
        stdout := stdout p @ [report_line p]\<rparr>)"
  using assms by (simp add: write_row_def writerow_mk_dict)

lemma str_int_0: "str_int 0 = ''0''"
  by (simp add: str_int_def str_nat.simps digit_def)

lemma build_sample_mk_dict:
  "build_sample (mk_dict (PInt ts) (PStr el) (PStr lb) (PStr rc) rm (PStr tn) (PStr sc)) n trace =
     Some [(''t'', PStr el), (''lt'', PStr ''0''), (''ct'', PStr ''0''), (''ts'', PStr (str_int ts)),
        (''s'', PStr sc), (''lb'', PStr lb), (''rc'', PStr rc), (''rm'', PStr n), (''tn'', PStr tn),
        (''dt'', PStr ''text''), (''de'', PStr []), (''by'', PStr (str_int (int (length trace)))),
        (''ng'', PStr ''1''), (''na'', PStr ''1'')]"
  by (simp add: build_sample_def getitem_mk_dict fromkeys_def JTL_ERR_ATRS_def setitem_def str_int_0)

lemma xml_char_digit: "d < 10 \<Longrightarrow> xml_char (digit d)"
proof -
  assume "d < 10"
  then have "d \<in> {0, 1, 2, 3, 4, 5, 6, 7, 8, 9}"
    by auto
  then show ?thesis
    by (auto simp: digit_def xml_char_def)
qed

lemma xml_compatible_str_nat: "xml_compatible (str_nat n)"
proof (induction n rule: str_nat.induct)
  case (1 n)
  show ?case
  proof (cases "n < 10")
    case True
    then show ?thesis
      by (subst str_nat.simps) (simp add: xml_compatible_def xml_char_digit)
  next
    case False
    then have "xml_compatible (str_nat (n div 10))"
      by (rule "1.IH")
    moreover have "xml_char (digit (n mod 10))"
      by (rule xml_char_digit) simp
    ultimately show ?thesis
      using False by (subst str_nat.simps) (simp add: xml_compatible_def)
  qed
qed

lemma xml_compatible_str_int: "xml_compatible (str_int i)"
  using xml_compatible_str_nat [of "nat i"] xml_compatible_str_nat [of "nat (- i)"]
  by (simp add: str_int_def xml_compatible_def xml_char_def)

lemma xml_compatible_consts:
  "xml_compatible ''0''" "xml_compatible ''1''" "xml_compatible ''text''" "xml_compatible []"
  "xml_compatible ''true''" "xml_compatible ''false''"
  "xml_compatible ''200''" "xml_compatible ''300''" "xml_compatible ''404''" "xml_compatible ''500''"
  by (simp_all add: xml_compatible_def xml_char_def)

lemma xml_compatible_signal_code: "xml_compatible (signal_code s)"
  by (cases s) (simp_all add: xml_compatible_consts)

lemma valid_names:
  "valid_name ''t''" "valid_name ''lt''" "valid_name ''ct''" "valid_name ''ts''" "valid_name ''s''"
  "valid_name ''lb''" "valid_name ''rc''" "valid_name ''rm''" "valid_name ''tn''"
  "valid_name ''dt''" "valid_name ''de''" "valid_name ''by''" "valid_name ''ng''"
  "valid_name ''na''"
  by (simp_all add: name_start_char_def name_char_def)

lemma gen_httpSample_eq:
  assumes "xml_compatible el" "xml_compatible sc" "xml_compatible rc"
  shows "gen_httpSample [(''t'', PStr el), (''lt'', PStr ''0''), (''ct'', PStr ''0''), (''ts'', PStr (str_int ts)),
        (''s'', PStr sc), (''lb'', PStr lb), (''rc'', PStr rc), (''rm'', PStr rm), (''tn'', PStr tn),
        (''dt'', PStr ''text''), (''de'', PStr []), (''by'', PStr (str_int (int (length trace)))),
        (''ng'', PStr ''1''), (''na'', PStr ''1'')] (PStr lb) trace
   = (if xml_compatible lb \<and> xml_compatible rm \<and> xml_compatible tn \<and> xml_compatible trace
      then Inr (sample_element ts el lb rc tn sc rm trace) else Inl ValueError)"
  using assms
  by (simp add: gen_httpSample_def etree_Element_def el_append_def set_text_def gen_resp_data_def
      java_lang_String_def sample_element_def valid_names xml_compatible_consts
      xml_compatible_str_int gen_resp_header_def gen_req_header_def gen_cookies_def
      gen_method_def gen_queryString_def Let_def del: valid_name.simps)

lemma report_last_err_raises:
  assumes "last_err p = Some err" and "jtl_dict p = Some d" and "trace_of err = Inl e"
  shows "report_last_err p = (Raised e, p)"
  using assms by (simp add: report_last_err_def Let_def)

lemma report_last_err_eq:
  assumes "last_err p = Some err" and "trace_of err = Inr trace"
    and "jtl_dict p = Some (mk_dict (PInt ts) (PStr el) (PStr lb) (PStr rc) rm (PStr tn) (PStr sc))"
    and "error_writer p = Some w" "xml_writer w = Suspended" "err_stream p = Some x" "\<not> closed x"
    and "xml_compatible el" "xml_compatible sc" "xml_compatible rc"
  shows "report_last_err p =
     (if xml_compatible lb \<and> xml_compatible (exc_name err) \<and> xml_compatible tn
         \<and> xml_compatible trace
      then (Returned, p\<lparr>jtl_dict := Some (mk_dict (PInt ts) (PStr el) (PStr lb) (PStr rc)
                       (PStr (exc_name err)) (PStr tn) (PStr sc)),
                  error_writer := Some w,
                  err_stream := Some (x\<lparr>written := written x @
                     [Write (sample_element ts el lb rc tn sc (exc_name err) trace)]\<rparr>)\<rparr>)
      else (Raised ValueError, p\<lparr>jtl_dict := Some (mk_dict (PInt ts) (PStr el) (PStr lb) (PStr rc)
                       (PStr (exc_name err)) (PStr tn) (PStr sc)),
                  error_writer := Some w, err_stream := Some x\<rparr>))"
proof -
  have w: "w\<lparr>xml_writer := Suspended\<rparr> = w"
    using assms(5) by (cases w) simp
  show ?thesis
    using assms
    by (simp add: report_last_err_def Let_def setitem_mk_dict build_sample_mk_dict getitem_mk_dict
        add_sample_def gen_httpSample_eq file_write_def w)
qed

lemma code_after_eq: "code_after ss v = (if ss = [] then v else PStr (signal_code (last ss)))"
  by (induction ss arbitrary: v) auto

lemma flag_after_eq: "flag_after ss v = (if Success \<in> set ss then PStr ''true'' else v)"
  by (induction ss arbitrary: v) auto

lemma message_after_eq: "message_after ss v = (if Success \<in> set ss then PStr ''OK'' else v)"
  by (induction ss arbitrary: v) auto

lemma stash_after_eq:
  "stash_after ss e = (if List.map_filter signal_exc ss = [] then e
                       else Some (last (List.map_filter signal_exc ss)))"
  by (induction ss arbitrary: e) (auto simp: List.map_filter_simps split: option.splits)

lemma stash_after_nonempty: "stash_after ss None = Some err \<Longrightarrow> ss \<noteq> []"
  by (cases ss) auto

lemma before_stop:
  "run (StartTest n ts # map Signal ss) p =
     (replicate (Suc (length ss)) Returned,
      p\<lparr>module_name' := Some (thread_name_of n), method_name := Some (label_of n),
        last_err := stash_after ss None,
        jtl_dict := Some (mk_dict (PInt ts) (PInt 0) (PStr (label_of n)) (code_after ss (PInt 0))
           (message_after ss (PInt 0)) (PStr (thread_name_of n)) (flag_after ss (PStr ''false''))),
        success := success p + successes ss\<rparr>)"
proof -
  let ?q = "p\<lparr>module_name' := Some (thread_name_of n), method_name := Some (label_of n),
                  last_err := None,
                  jtl_dict := Some (mk_dict (PInt ts) (PInt 0) (PStr (label_of n)) (PInt 0) (PInt 0)
                     (PStr (thread_name_of n)) (PStr ''false''))\<rparr>"
  have q: "jtl_dict ?q = Some (mk_dict (PInt ts) (PInt 0) (PStr (label_of n)) (PInt 0) (PInt 0)
                     (PStr (thread_name_of n)) (PStr ''false''))"
    by simp
  show ?thesis
    by (simp add: startTest_eq run_signals_eq [OF q])
qed

lemma ready_fields:
  "ready (p\<lparr>module_name' := a\<rparr>) = ready p"
  "ready (p\<lparr>method_name := b\<rparr>) = ready p"
  "ready (p\<lparr>last_err := c\<rparr>) = ready p"
  "ready (p\<lparr>jtl_dict := d\<rparr>) = ready p"
  "ready (p\<lparr>success := e\<rparr>) = ready p"
  "ready (p\<lparr>test_count := g\<rparr>) = ready p"
  "ready (p\<lparr>stdout := h\<rparr>) = ready p"
  by (simp_all add: ready_def)

lemma stopTest_plain:
  assumes "ready p" and "last_err p = None"
    and "jtl_dict p = Some (mk_dict ts el0 lb rc rm tn sc)"
  shows "\<exists>p'. stopTest el p = (Returned, p') \<and> ready p' \<and> test_count p' = test_count p + 1
      \<and> csv_rows p' = csv_rows p @
           [[cell (Some ts), str_int el, cell (Some lb), cell (Some rc), cell (Some rm),
             cell (Some tn), cell (Some sc), ''1'', ''1'', ''0'', ''0'']]
      \<and> xml_items p' = xml_items p"
proof -
  from assms(1) obtain f w x where r: "csv_writer p = Some JTL_HEADER" "out_stream p = Some f"
    "\<not> closed f" "error_writer p = Some w" "xml_writer w = Suspended" "err_stream p = Some x"
    "\<not> closed x"
    by (rule readyE)
  let ?q = "p\<lparr>test_count := test_count p + 1,
               jtl_dict := Some (mk_dict ts (PStr (str_int el)) lb rc rm tn sc)\<rparr>"
  have rep: "report_last_err ?q = (Returned, ?q)"
    using assms(2) by (simp add: report_last_err_def)
  have row: "write_row ?q =
     (Returned, ?q\<lparr>out_stream := Some (f\<lparr>written := written f @
       [[cell (Some ts), cell (Some (PStr (str_int el))), cell (Some lb), cell (Some rc),
         cell (Some rm), cell (Some tn), cell (Some sc), ''1'', ''1'', ''0'', ''0'']]\<rparr>),
        stdout := stdout ?q @ [report_line ?q]\<rparr>)"
    by (rule write_row_eq) (use r in simp_all)
  have stop: "stopTest el p = write_row ?q"
    using assms(3) rep by (simp add: stopTest_def Let_def setitem_mk_dict)
  show ?thesis
    unfolding stop row using r
    by (simp add: ready_def csv_rows_def xml_items_def)
qed

lemma stopTest_type_error:
  assumes "ready p" and "last_err p = Some err" and "trace_of err = Inl e"
    and "jtl_dict p = Some (mk_dict ts el0 lb rc rm tn sc)"
  shows "\<exists>p'. stopTest el p = (Raised e, p') \<and> ready p' \<and> test_count p' = test_count p + 1
      \<and> csv_rows p' = csv_rows p \<and> xml_items p' = xml_items p
      \<and> jtl_dict p' = Some (mk_dict ts (PStr (str_int el)) lb rc rm tn sc)"
proof -
  let ?q = "p\<lparr>test_count := test_count p + 1,
               jtl_dict := Some (mk_dict ts (PStr (str_int el)) lb rc rm tn sc)\<rparr>"
  have rep: "report_last_err ?q = (Raised e, ?q)"
    by (rule report_last_err_raises [where err = err]) (use assms in simp_all)
  have stop: "stopTest el p = (Raised e, ?q)"
    using assms(4) rep by (simp add: stopTest_def Let_def setitem_mk_dict)
  show ?thesis
    unfolding stop using assms(1)
    by (simp add: ready_fields csv_rows_def xml_items_def)
qed

lemma stopTest_stashed:
  assumes "ready p" and "last_err p = Some err" and "trace_of err = Inr trace"
    and "jtl_dict p = Some (mk_dict (PInt ts) el0 (PStr lb) (PStr rc) rm (PStr tn) (PStr sc))"
    and "xml_compatible rc" "xml_compatible sc"
    and "xml_compatible lb \<and> xml_compatible (exc_name err) \<and> xml_compatible tn
         \<and> xml_compatible trace"
  shows "\<exists>p'. stopTest el p = (Returned, p') \<and> ready p' \<and> test_count p' = test_count p + 1
      \<and> csv_rows p' = csv_rows p @
           [[str_int ts, str_int el, lb, rc, exc_name err, tn, sc, ''1'', ''1'', ''0'', ''0'']]
      \<and> xml_items p' = xml_items p @
           [Write (sample_element ts (str_int el) lb rc tn sc (exc_name err) trace)]
      \<and> jtl_dict p' = Some (mk_dict (PInt ts) (PStr (str_int el)) (PStr lb) (PStr rc)
            (PStr (exc_name err)) (PStr tn) (PStr sc))"
proof -
  from assms(1) obtain f w x where r: "csv_writer p = Some JTL_HEADER" "out_stream p = Some f"
    "\<not> closed f" "error_writer p = Some w" "xml_writer w = Suspended" "err_stream p = Some x"
    "\<not> closed x"
    by (rule readyE)
  let ?q = "p\<lparr>test_count := test_count p + 1,
               jtl_dict := Some (mk_dict (PInt ts) (PStr (str_int el)) (PStr lb) (PStr rc) rm
                  (PStr tn) (PStr sc))\<rparr>"
  let ?q' = "?q\<lparr>jtl_dict := Some (mk_dict (PInt ts) (PStr (str_int el)) (PStr lb) (PStr rc)
                       (PStr (exc_name err)) (PStr tn) (PStr sc)),
                  error_writer := Some w,
                  err_stream := Some (x\<lparr>written := written x @
                     [Write (sample_element ts (str_int el) lb rc tn sc (exc_name err) trace)]\<rparr>)\<rparr>"
  have "report_last_err ?q =
     (if xml_compatible lb \<and> xml_compatible (exc_name err) \<and> xml_compatible tn
         \<and> xml_compatible trace
      then (Returned, ?q')
      else (Raised ValueError, ?q\<lparr>jtl_dict := Some (mk_dict (PInt ts) (PStr (str_int el))
                       (PStr lb) (PStr rc) (PStr (exc_name err)) (PStr tn) (PStr sc)),
                  error_writer := Some w, err_stream := Some x\<rparr>))"
    by (rule report_last_err_eq)
       (use r assms(2,3,5,6) in \<open>simp_all add: xml_compatible_str_int\<close>)
  then have rep: "report_last_err ?q = (Returned, ?q')"
    using assms(7) by simp
  have row: "write_row ?q' =
     (Returned, ?q'\<lparr>out_stream := Some (f\<lparr>written := written f @
       [[cell (Some (PInt ts)), cell (Some (PStr (str_int el))), cell (Some (PStr lb)),
         cell (Some (PStr rc)), cell (Some (PStr (exc_name err))), cell (Some (PStr tn)),
         cell (Some (PStr sc)), ''1'', ''1'', ''0'', ''0'']]\<rparr>),
        stdout := stdout ?q' @ [report_line ?q']\<rparr>)"
    by (rule write_row_eq) (use r in simp_all)
  have stop: "stopTest el p = write_row ?q'"
    using assms(4) rep by (simp add: stopTest_def Let_def setitem_mk_dict)
  show ?thesis
    unfolding stop row using r
    by (simp add: ready_def csv_rows_def xml_items_def)
qed

lemma stopTest_value_error:
  assumes "ready p" and "last_err p = Some err" and "trace_of err = Inr trace"
    and "jtl_dict p = Some (mk_dict (PInt ts) el0 (PStr lb) (PStr rc) rm (PStr tn) (PStr sc))"
    and "xml_compatible rc" "xml_compatible sc"
    and "\<not> (xml_compatible lb \<and> xml_compatible (exc_name err) \<and> xml_compatible tn
         \<and> xml_compatible trace)"
  shows "\<exists>p'. stopTest el p = (Raised ValueError, p') \<and> ready p'
      \<and> test_count p' = test_count p + 1
      \<and> csv_rows p' = csv_rows p \<and> xml_items p' = xml_items p
      \<and> jtl_dict p' = Some (mk_dict (PInt ts) (PStr (str_int el)) (PStr lb) (PStr rc)
            (PStr (exc_name err)) (PStr tn) (PStr sc))"
proof -
  from assms(1) obtain f w x where r: "csv_writer p = Some JTL_HEADER" "out_stream p = Some f"
    "\<not> closed f" "error_writer p = Some w" "xml_writer w = Suspended" "err_stream p = Some x"
    "\<not> closed x"
    by (rule readyE)
  let ?q = "p\<lparr>test_count := test_count p + 1,
               jtl_dict := Some (mk_dict (PInt ts) (PStr (str_int el)) (PStr lb) (PStr rc) rm
                  (PStr tn) (PStr sc))\<rparr>"
  let ?q' = "?q\<lparr>jtl_dict := Some (mk_dict (PInt ts) (PStr (str_int el))
                       (PStr lb) (PStr rc) (PStr (exc_name err)) (PStr tn) (PStr sc)),
                  error_writer := Some w, err_stream := Some x\<rparr>"
  have "report_last_err ?q =
     (if xml_compatible lb \<and> xml_compatible (exc_name err) \<and> xml_compatible tn
         \<and> xml_compatible trace
      then (Returned, ?q\<lparr>jtl_dict := Some (mk_dict (PInt ts) (PStr (str_int el)) (PStr lb) (PStr rc)
                       (PStr (exc_name err)) (PStr tn) (PStr sc)),
                  error_writer := Some w,
                  err_stream := Some (x\<lparr>written := written x @
                     [Write (sample_element ts (str_int el) lb rc tn sc (exc_name err) trace)]\<rparr>)\<rparr>)
      else (Raised ValueError, ?q'))"
    by (rule report_last_err_eq)
       (use r assms(2,3,5,6) in \<open>simp_all add: xml_compatible_str_int\<close>)
  then have rep: "report_last_err ?q = (Raised ValueError, ?q')"
    using assms(7) by (simp only: if_False)
  have stop: "stopTest el p = (Raised ValueError, ?q')"
    using assms(4) rep by (simp add: stopTest_def Let_def setitem_mk_dict)
  show ?thesis
    unfolding stop using r
    by (simp add: ready_def csv_rows_def xml_items_def)
qed

lemma cell_Some: "v \<noteq> PNone \<Longrightarrow> cell (Some v) = str v"
  by (cases v) simp_all

lemma stop_outcome_Returned: "(stop_outcome t = Returned) = completes t"
  by (auto simp: stop_outcome_def completes_def reportable_def split: option.splits sum.splits)

lemma run_test:
  assumes "ready p"
  shows "\<exists>p'. run (test_calls t) p = (test_outcomes t, p') \<and> ready p'
      \<and> test_count p' = test_count p + 1
      \<and> csv_rows p' = csv_rows p @ (if completes t then [row_of t] else [])
      \<and> xml_items p' = xml_items p @ (if completes t then map Write (entries_of t) else [])"
proof -
  let ?n = "identity t" and ?ss = "signals t"
  let ?q = "p\<lparr>module_name' := Some (thread_name_of ?n), method_name := Some (label_of ?n),
        last_err := stash_after ?ss None,
        jtl_dict := Some (mk_dict (PInt (started_ms t)) (PInt 0) (PStr (label_of ?n))
           (code_after ?ss (PInt 0)) (message_after ?ss (PInt 0)) (PStr (thread_name_of ?n))
           (flag_after ?ss (PStr ''false''))),
        success := success p + successes ?ss\<rparr>"
  have calls: "test_calls t = (StartTest ?n (started_ms t) # map Signal ?ss) @ [StopTest (elapsed_ms t)]"
    by (simp add: test_calls_def)
  have run: "run (test_calls t) p =
      (replicate (Suc (length ?ss)) Returned @ [fst (stopTest (elapsed_ms t) ?q)],
       snd (stopTest (elapsed_ms t) ?q))"
    unfolding calls run_append before_stop by (simp split: prod.splits)
  have rq: "ready ?q"
    using assms by (simp add: ready_fields)
  have same: "csv_rows ?q = csv_rows p" "xml_items ?q = xml_items p" "test_count ?q = test_count p"
    by (simp_all add: csv_rows_def xml_items_def)
  have code: "code_after ?ss (PInt 0) \<noteq> PNone" and msg: "message_after ?ss (PInt 0) \<noteq> PNone"
    and flag: "flag_after ?ss (PStr ''false'') \<noteq> PNone"
    by (simp_all add: code_after_eq message_after_eq flag_after_eq)
  show ?thesis
  proof (cases "stash_after ?ss None")
    case None
    have "\<exists>p'. stopTest (elapsed_ms t) ?q = (Returned, p') \<and> ready p'
        \<and> test_count p' = test_count ?q + 1
        \<and> csv_rows p' = csv_rows ?q @
           [[cell (Some (PInt (started_ms t))), str_int (elapsed_ms t),
             cell (Some (PStr (label_of ?n))), cell (Some (code_after ?ss (PInt 0))),
             cell (Some (message_after ?ss (PInt 0))), cell (Some (PStr (thread_name_of ?n))),
             cell (Some (flag_after ?ss (PStr ''false''))), ''1'', ''1'', ''0'', ''0'']]
        \<and> xml_items p' = xml_items ?q"
      by (rule stopTest_plain [OF rq]) (simp_all add: None)
    then show ?thesis
      unfolding run same
      by (auto simp add: row_of_def entries_of_def None cell_Some code msg flag test_outcomes_def
          stop_outcome_def completes_def)
  next
    case (Some err)
    then have ne: "?ss \<noteq> []"
      by (rule stash_after_nonempty)
    have "\<exists>rc. code_after ?ss (PInt 0) = PStr rc \<and> xml_compatible rc"
      using ne by (simp add: code_after_eq xml_compatible_signal_code)
    then obtain rc where rc: "code_after ?ss (PInt 0) = PStr rc" "xml_compatible rc"
      by blast
    have "\<exists>sc. flag_after ?ss (PStr ''false'') = PStr sc \<and> xml_compatible sc"
      by (simp add: flag_after_eq xml_compatible_consts)
    then obtain sc where sc: "flag_after ?ss (PStr ''false'') = PStr sc" "xml_compatible sc"
      by blast
    show ?thesis
    proof (cases "trace_of err")
      case (Inl e)
      have "\<exists>p'. stopTest (elapsed_ms t) ?q = (Raised e, p') \<and> ready p'
          \<and> test_count p' = test_count ?q + 1
          \<and> csv_rows p' = csv_rows ?q \<and> xml_items p' = xml_items ?q
          \<and> jtl_dict p' = Some (mk_dict (PInt (started_ms t)) (PStr (str_int (elapsed_ms t)))
                (PStr (label_of ?n)) (code_after ?ss (PInt 0)) (message_after ?ss (PInt 0))
                (PStr (thread_name_of ?n)) (flag_after ?ss (PStr ''false'')))"
        by (rule stopTest_type_error [OF rq _ Inl]) (simp_all add: Some)
      then show ?thesis
        unfolding run same
        by (auto simp add: test_outcomes_def stop_outcome_def completes_def reportable_def Some Inl)
    next
      case (Inr trace)
      show ?thesis
      proof (cases "xml_compatible (label_of ?n) \<and> xml_compatible (exc_name err)
          \<and> xml_compatible (thread_name_of ?n) \<and> xml_compatible trace")
        case True
        have "\<exists>p'. stopTest (elapsed_ms t) ?q = (Returned, p') \<and> ready p'
            \<and> test_count p' = test_count ?q + 1
            \<and> csv_rows p' = csv_rows ?q @
               [[str_int (started_ms t), str_int (elapsed_ms t), label_of ?n, rc, exc_name err,
                 thread_name_of ?n, sc, ''1'', ''1'', ''0'', ''0'']]
            \<and> xml_items p' = xml_items ?q @
                 [Write (sample_element (started_ms t) (str_int (elapsed_ms t)) (label_of ?n) rc
                    (thread_name_of ?n) sc (exc_name err) trace)]
            \<and> jtl_dict p' = Some (mk_dict (PInt (started_ms t)) (PStr (str_int (elapsed_ms t)))
                  (PStr (label_of ?n)) (PStr rc) (PStr (exc_name err)) (PStr (thread_name_of ?n))
                  (PStr sc))"
          by (rule stopTest_stashed [OF rq _ Inr _ rc(2) sc(2) True]) (simp_all add: Some rc sc)
        then show ?thesis
          unfolding run same using True
          by (auto simp add: row_of_def entries_of_def entry_of_def Some rc sc Inr trace_text_def
              test_outcomes_def stop_outcome_def completes_def reportable_def)
      next
        case False
        have "\<exists>p'. stopTest (elapsed_ms t) ?q = (Raised ValueError, p') \<and> ready p'
            \<and> test_count p' = test_count ?q + 1
            \<and> csv_rows p' = csv_rows ?q \<and> xml_items p' = xml_items ?q
            \<and> jtl_dict p' = Some (mk_dict (PInt (started_ms t)) (PStr (str_int (elapsed_ms t)))
                  (PStr (label_of ?n)) (PStr rc) (PStr (exc_name err)) (PStr (thread_name_of ?n))
                  (PStr sc))"
          by (rule stopTest_value_error [OF rq _ Inr _ rc(2) sc(2) False]) (simp_all add: Some rc sc)
        then show ?thesis
          unfolding run same using False
          by (auto simp add: Some Inr test_outcomes_def stop_outcome_def completes_def
              reportable_def)
      qed
    qed
  qed
qed

lemma run_suite:
  assumes "ready p"
  shows "\<exists>p'. run (suite_calls ts) p = (concat (map test_outcomes ts), p') \<and> ready p'
      \<and> test_count p' = test_count p + int (length ts)
      \<and> csv_rows p' = csv_rows p @ map row_of (filter completes ts)
      \<and> xml_items p' = xml_items p @ map Write (concat (map entries_of (filter completes ts)))"
  using assms
proof (induction ts arbitrary: p)
  case Nil
  then show ?case by (simp add: suite_calls_def)
next
  case (Cons t ts)
  from run_test [OF Cons.prems, of t] obtain q where q: "run (test_calls t) p = (test_outcomes t, q)"
    "ready q" "test_count q = test_count p + 1"
    "csv_rows q = csv_rows p @ (if completes t then [row_of t] else [])"
    "xml_items q = xml_items p @ (if completes t then map Write (entries_of t) else [])"
    by blast
  from Cons.IH [OF q(2)] obtain p' where p': "run (suite_calls ts) q = (concat (map test_outcomes ts), p')"
    "ready p'" "test_count p' = test_count q + int (length ts)"
    "csv_rows p' = csv_rows q @ map row_of (filter completes ts)"
    "xml_items p' = xml_items q @ map Write (concat (map entries_of (filter completes ts)))"
    by blast
  have "run (suite_calls (t # ts)) p = (concat (map test_outcomes (t # ts)), p')"
    using q(1) p'(1) by (simp add: suite_calls_def run_append)
  then show ?case
    using q p' by simp
qed

lemma begin_eq:
  "\<exists>q. begin' p = (Returned, q) \<and> ready q \<and> test_count q = test_count p
     \<and> csv_rows q = [JTL_HEADER]
     \<and> xml_items q = [Declaration, StartElement ''testResults'' [(''version'', ''1.2'')]]"
proof -
  have header: "DictWriter_writeheader JTL_HEADER open_file
      = Inr \<lparr>written = [JTL_HEADER], closed = False\<rparr>"
    by (simp add: DictWriter_writeheader_def DictWriter_writerow_def JTL_HEADER_def getitem_def
        file_write_def open_file_def)
  have writer: "JTLErrorWriter_init open_file =
     (Inr \<lparr>xml_writer = Suspended\<rparr>,
      \<lparr>written = [Declaration, StartElement ''testResults'' [(''version'', ''1.2'')]],
       closed = False\<rparr>)"
    by (simp add: JTLErrorWriter_init_def write_element_next_def file_write_def open_file_def)
  show ?thesis
    by (simp add: begin'_def Let_def header writer ready_def csv_rows_def xml_items_def)
qed

lemma finalize_eq:
  assumes "ready p"
  shows "\<exists>f x. out_stream p = Some f \<and> err_stream p = Some x \<and>
     finalize p =
       (if test_count p = 0 then Raised (RuntimeError ''Nothing to test.'') else Returned,
        p\<lparr>error_writer := Some \<lparr>xml_writer = Finished\<rparr>,
          err_stream := Some \<lparr>written = written x @ [EndElement ''testResults''], closed = True\<rparr>,
          out_stream := Some \<lparr>written = written f, closed = True\<rparr>\<rparr>)"
proof -
  from assms obtain f w x where r: "csv_writer p = Some JTL_HEADER" "out_stream p = Some f"
    "\<not> closed f" "error_writer p = Some w" "xml_writer w = Suspended" "err_stream p = Some x"
    "\<not> closed x"
    by (rule readyE)
  have w: "w\<lparr>xml_writer := Finished\<rparr> = \<lparr>xml_writer = Finished\<rparr>"
    by (cases w) simp
  have f: "f\<lparr>closed := True\<rparr> = \<lparr>written = written f, closed = True\<rparr>"
    by (cases f) simp
  have x: "x\<lparr>written := written x @ [EndElement ''testResults''], closed := True\<rparr>
      = \<lparr>written = written x @ [EndElement ''testResults''], closed = True\<rparr>"
    by (cases x) simp
  show ?thesis
    using r
    by (simp add: finalize_def JTLErrorWriter_close_def file_write_def file_close_def Let_def w f x)
qed

section \<open>Whole runs\<close>

lemma run_begin_suite:
  "\<exists>q. run (Begin # suite_calls ts) p = (Returned # concat (map test_outcomes ts), q) \<and> ready q
     \<and> test_count q = test_count p + int (length ts)
     \<and> csv_rows q = JTL_HEADER # map row_of (filter completes ts)
     \<and> xml_items q = Declaration # StartElement ''testResults'' [(''version'', ''1.2'')]
           # map Write (concat (map entries_of (filter completes ts)))"
proof -
  from begin_eq [of p] obtain b where b: "begin' p = (Returned, b)" "ready b"
    "test_count b = test_count p" "csv_rows b = [JTL_HEADER]"
    "xml_items b = [Declaration, StartElement ''testResults'' [(''version'', ''1.2'')]]"
    by blast
  from run_suite [OF b(2), of ts] obtain q where
    q: "run (suite_calls ts) b = (concat (map test_outcomes ts), q)"
    "ready q" "test_count q = test_count b + int (length ts)"
    "csv_rows q = csv_rows b @ map row_of (filter completes ts)"
    "xml_items q = xml_items b @ map Write (concat (map entries_of (filter completes ts)))"
    by blast
  have "run (Begin # suite_calls ts) p = (Returned # concat (map test_outcomes ts), q)"
    using b(1) q(1) by simp
  then show ?thesis
    using b q by simp
qed

lemma run_whole:
  "\<exists>q. run (Begin # suite_calls ts @ [Finalize]) p =
       (Returned # concat (map test_outcomes ts) @
          [if test_count p + int (length ts) = 0 then Raised (RuntimeError ''Nothing to test.'')
           else Returned], q)
     \<and> csv_rows q = JTL_HEADER # map row_of (filter completes ts)
     \<and> xml_items q = Declaration # StartElement ''testResults'' [(''version'', ''1.2'')]
           # map Write (concat (map entries_of (filter completes ts))) @ [EndElement ''testResults'']
     \<and> out_stream q = Some \<lparr>written = csv_rows q, closed = True\<rparr>
     \<and> err_stream q = Some \<lparr>written = xml_items q, closed = True\<rparr>
     \<and> error_writer q = Some \<lparr>xml_writer = Finished\<rparr>"
proof -
  from run_begin_suite [of ts p] obtain b where
    b: "run (Begin # suite_calls ts) p = (Returned # concat (map test_outcomes ts), b)"
    "ready b" "test_count b = test_count p + int (length ts)"
    "csv_rows b = JTL_HEADER # map row_of (filter completes ts)"
    "xml_items b = Declaration # StartElement ''testResults'' [(''version'', ''1.2'')]
           # map Write (concat (map entries_of (filter completes ts)))"
    by blast
  from finalize_eq [OF b(2)] obtain f x where fin: "out_stream b = Some f" "err_stream b = Some x"
     "finalize b =
       (if test_count b = 0 then Raised (RuntimeError ''Nothing to test.'') else Returned,
        b\<lparr>error_writer := Some \<lparr>xml_writer = Finished\<rparr>,
          err_stream := Some \<lparr>written = written x @ [EndElement ''testResults''], closed = True\<rparr>,
          out_stream := Some \<lparr>written = written f, closed = True\<rparr>\<rparr>)"
    by blast
  have calls: "Begin # suite_calls ts @ [Finalize] = (Begin # suite_calls ts) @ [Finalize]"
    by simp
  have "run (Begin # suite_calls ts @ [Finalize]) p =
      (Returned # concat (map test_outcomes ts) @ [fst (finalize b)], snd (finalize b))"
    unfolding calls run_append b(1) by (simp split: prod.splits)
  then show ?thesis
    using fin b(3,4,5) by (simp add: csv_rows_def xml_items_def)
qed

lemma stop_returns_eq: "stop_returns t = completes t"
proof -
  from run_begin_suite [of "[t]" "init [] []"] obtain q where
    "run (Begin # suite_calls [t]) (init [] []) = (Returned # concat (map test_outcomes [t]), q)"
    by blast
  then have "fst (run (Begin # test_calls t) (init [] [])) = Returned # test_outcomes t"
    by (simp add: suite_calls_def del: run.simps)
  then show ?thesis
    by (simp add: stop_returns_def test_outcomes_def stop_outcome_Returned del: run.simps)
qed

lemma filter_stop_returns: "filter stop_returns ts = filter completes ts"
  by (rule filter_cong) (simp_all add: stop_returns_eq)

lemma rows_whole:
  "tl (csv_rows (snd (run (Begin # suite_calls ts @ [Finalize]) p)))
     = map row_of (filter stop_returns ts)"
proof -
  from run_whole [of ts p] obtain q where q:
    "run (Begin # suite_calls ts @ [Finalize]) p =
       (Returned # concat (map test_outcomes ts) @
          [if test_count p + int (length ts) = 0 then Raised (RuntimeError ''Nothing to test.'')
           else Returned], q)"
    "csv_rows q = JTL_HEADER # map row_of (filter completes ts)"
    by blast
  show ?thesis
    by (simp add: q filter_stop_returns del: run.simps)
qed

lemma map_filter_Write:
  "List.map_filter written_element (map Write es @ rest) = es @ List.map_filter written_element rest"
  by (induction es) simp_all

lemma entries_whole:
  "entries (snd (run (Begin # suite_calls ts @ [Finalize]) p))
     = concat (map entries_of (filter stop_returns ts))"
proof -
  from run_whole [of ts p] obtain q where q:
    "run (Begin # suite_calls ts @ [Finalize]) p =
       (Returned # concat (map test_outcomes ts) @
          [if test_count p + int (length ts) = 0 then Raised (RuntimeError ''Nothing to test.'')
           else Returned], q)"
    "xml_items q = Declaration # StartElement ''testResults'' [(''version'', ''1.2'')]
           # map Write (concat (map entries_of (filter completes ts))) @ [EndElement ''testResults'']"
    by blast
  have "entries q = concat (map entries_of (filter completes ts))"
    by (simp add: entries_def q(2) map_filter_Write)
  then show ?thesis
    by (simp add: q(1) filter_stop_returns del: run.simps)
qed

lemma list_all2_rows: "(\<And>t. P t (row_of t)) \<Longrightarrow> list_all2 P ts (map row_of ts)"
  by (induction ts) simp_all

lemma row_of_nth:
  "row_of t ! 0 = str_int (started_ms t)"
  "row_of t ! 1 = str_int (elapsed_ms t)"
  "row_of t ! 2 = label_of (identity t)"
  "row_of t ! 3 = str (code_after (signals t) (PInt 0))"
  "row_of t ! 4 = (case stash_after (signals t) None of
         None \<Rightarrow> str (message_after (signals t) (PInt 0))
       | Some err \<Rightarrow> exc_name err)"
  "row_of t ! 5 = thread_name_of (identity t)"
  "row_of t ! 6 = str (flag_after (signals t) (PStr ''false''))"
  by (simp_all add: row_of_def)

lemma row_code: "row_of t ! 3 = (if signals t = [] then ''0'' else signal_code (last (signals t)))"
  by (simp add: row_of_nth code_after_eq str_int_0)

lemma row_flag: "row_of t ! 6 = (if Success \<in> set (signals t) then ''true'' else ''false'')"
  by (simp add: row_of_nth flag_after_eq)

lemma signal_code_cases: "signal_code s \<in> {''200'', ''300'', ''404'', ''500''}"
  by (cases s) simp_all

lemma signal_code_200: "(signal_code s = ''200'') = (s = Success)"
  by (cases s) simp_all

lemma no_exc_iff: "(List.map_filter signal_exc ss = []) = (\<not> list_ex failure_or_error ss)"
proof (induction ss)
  case Nil
  show ?case by simp
next
  case (Cons s ss)
  then show ?case by (cases s) simp_all
qed

lemma entries_of_cases:
  "(\<not> received_failure t \<and> entries_of t = [])
   \<or> (received_failure t \<and> (\<exists>err. entries_of t = [entry_of t err]))"
  using no_exc_iff [of "signals t"]
  by (cases "List.map_filter signal_exc (signals t) = []")
     (auto simp add: entries_of_def stash_after_eq received_failure_def)

lemma map_entries_suite:
  assumes "\<And>t err. f (entry_of t err) = g t"
  shows "map f (concat (map entries_of ts)) = map g (filter received_failure ts)"
proof (induction ts)
  case Nil
  show ?case by simp
next
  case (Cons t ts)
  from entries_of_cases [of t] Cons assms show ?case
    by auto
qed

lemma sample_element_parts:
  "map_of (attrib (sample_element ts el lb rc tn sc rm trace)) ''rm'' = Some rm"
  "map_of (attrib (sample_element ts el lb rc tn sc rm trace)) ''rc'' = Some rc"
  "map_of (attrib (sample_element ts el lb rc tn sc rm trace)) ''tn'' = Some tn"
  "tag (sample_element ts el lb rc tn sc rm trace) = ''httpSample''"
  "tag (children (sample_element ts el lb rc tn sc rm trace) ! 2) = ''responseData''"
  "el_text (children (sample_element ts el lb rc tn sc rm trace) ! 2) = Some trace"
  by (simp_all add: sample_element_def)

lemma balanced_element:
  "balanced (t # stack) (element_tokens e @ rest) = balanced (t # stack) rest"
proof (induction e arbitrary: t stack rest)
  case (Element n a x cs)
  have kids: "balanced (u # st) (concat (map element_tokens ds) @ r) = balanced (u # st) r"
    if "set ds \<subseteq> set cs" for ds u st r
    using that
  proof (induction ds)
    case Nil
    show ?case by simp
  next
    case (Cons d ds)
    then have "d \<in> set cs" by simp
    from Element.IH [OF this] Cons show ?case by simp
  qed
  show ?case
    using kids [of cs n "t # stack" "TEnd n # rest"]
    by (cases x) simp_all
qed

lemma balanced_elements:
  "balanced (t # stack) (concat (map element_tokens es) @ rest) = balanced (t # stack) rest"
  by (induction es) (simp_all add: balanced_element)

lemma document_tokens_shape:
  "document_tokens (Declaration # StartElement r a # map Write es @ [EndElement r])
     = TDecl # TStart r a # concat (map element_tokens es) @ [TEnd r]"
  by (simp add: document_tokens_def comp_def)

lemma well_formed_document:
  "well_formed (document_tokens (Declaration # StartElement r a # map Write es @ [EndElement r]))"
  by (simp add: document_tokens_shape balanced_elements)

lemma add_samples_suspended:
  assumes "xml_writer w = Suspended" "\<not> closed f"
  shows "\<exists>f'. add_samples xs w f = (w, f') \<and> \<not> closed f'
      \<and> written f' = written f @ map Write (built xs)"
  using assms
proof (induction xs arbitrary: f)
  case Nil
  then show ?case by simp
next
  case (Cons x xs)
  obtain sample url data where x: "x = (sample, url, data)"
    by (cases x)
  have w: "w\<lparr>xml_writer := Suspended\<rparr> = w"
    using Cons.prems(1) by (cases w) simp
  show ?case
  proof (cases "gen_httpSample sample url data")
    case (Inl e)
    then have "add_samples (x # xs) w f = add_samples xs w f"
      by (simp add: x add_sample_def)
    with Cons.IH [OF Cons.prems] Inl show ?thesis
      by (simp add: x)
  next
    case (Inr el)
    let ?g = "f\<lparr>written := written f @ [Write el]\<rparr>"
    have "add_samples (x # xs) w f = add_samples xs w ?g"
      using Cons.prems by (simp add: x add_sample_def Inr file_write_def w)
    moreover have "\<not> closed ?g"
      using Cons.prems(2) by simp
    from Cons.IH [OF Cons.prems(1) this] obtain f' where
      "add_samples xs w ?g = (w, f')" "\<not> closed f'" "written f' = written ?g @ map Write (built xs)"
      by blast
    ultimately show ?thesis
      by (simp add: x Inr)
  qed
qed

lemma scenario_a_parts:
  "findall SEARCH_method ''test_add (pkg.module.CalcTest)'' = [''test_add'']"
  "findall SEARCH_file ''test_add (pkg.module.CalcTest)'' = [''pkg'']"
  "findall SEARCH_class ''test_add (pkg.module.CalcTest)'' = [''module.CalcTest'']"
  by code_simp+

lemma all_replicate: "list_all (\<lambda>r. r = x) (replicate n x)"
  by (induction n) simp_all

lemma re_match_method_none:
  "CHR '' '' \<notin> set s \<Longrightarrow> re_match SEARCH_method s = None"
proof (induction s)
  case Nil
  show ?case by (simp add: SEARCH_method_def)
next
  case (Cons x xs)
  then have rest: "re_match [LazyGroup, Lit CHR '' ''] xs = None" and x: "x \<noteq> CHR '' ''"
    by (auto simp: SEARCH_method_def)
  show ?case
    unfolding SEARCH_method_def
    by (subst re_match.simps(4)) (simp add: x rest del: re_match.simps(4))
qed

lemma findall_method_none:
  "CHR '' '' \<notin> set s \<Longrightarrow> findall SEARCH_method s = []"
proof (induction s)
  case Nil
  show ?case
    by (subst findall.simps) (simp add: re_match_method_none)
next
  case (Cons x xs)
  then have "findall SEARCH_method xs = []" by simp
  moreover have "re_match SEARCH_method (x # xs) = None"
    using Cons.prems by (rule re_match_method_none)
  ultimately show ?case
    by (subst findall.simps) simp
qed

lemma re_match_method_prefix:
  "CHR '' '' \<notin> set m \<Longrightarrow> CHR 0x0A \<notin> set m
     \<Longrightarrow> re_match SEARCH_method (m @ CHR '' '' # rest) = Some (m, rest)"
proof (induction m)
  case Nil
  show ?case by (simp add: SEARCH_method_def)
next
  case (Cons x xs)
  then have rest: "re_match [LazyGroup, Lit CHR '' ''] (xs @ CHR '' '' # rest) = Some (xs, rest)"
    and x: "x \<noteq> CHR '' ''" "x \<noteq> CHR 0x0A"
    by (auto simp: SEARCH_method_def)
  show ?case
    unfolding SEARCH_method_def
    by (subst re_match.simps(4)) (simp add: x rest del: re_match.simps(4))
qed

lemma findall_method_prefix:
  assumes "CHR '' '' \<notin> set m" "CHR 0x0A \<notin> set m"
  shows "findall SEARCH_method (m @ CHR '' '' # rest) = m # findall SEARCH_method rest"
  by (subst findall.simps) (simp add: re_match_method_prefix [OF assms])

section \<open>The claims\<close>

text \<open>
  C1 does not hold of the code. A test that fails hands \<open>addFailure\<close> the exception
  instance as \<open>err[1]\<close>; at its stop, line 157 adds that instance to a string and raises
  TypeError before the row is written at line 178. A run of this one test leaves the header
  and no data row; in a run of three tests, a success, this failure and a skip, the log
  holds the rows of the first and the third only.
\<close>

theorem failing_test_leaves_no_row:
  "fst (run (Begin # suite_calls
       [\<lparr>identity = ''test_sub (pkg.module.CalcTest)'', started_ms = 1010,
          signals = [Failure \<lparr>exc_name = ''ValueError'', exc_value = Instance ''bad input'',
                              format_tb = [''  File calc.py, line 3'']\<rparr>],
          elapsed_ms = 7\<rparr>] @ [Finalize]) (init ''out.csv'' ''err.xml''))
     = [Returned, Returned, Returned, Raised TypeError, Returned]
   \<and> csv_rows (snd (run (Begin # suite_calls
       [\<lparr>identity = ''test_sub (pkg.module.CalcTest)'', started_ms = 1010,
          signals = [Failure \<lparr>exc_name = ''ValueError'', exc_value = Instance ''bad input'',
                              format_tb = [''  File calc.py, line 3'']\<rparr>],
          elapsed_ms = 7\<rparr>] @ [Finalize]) (init ''out.csv'' ''err.xml'')))
     = [[''timeStamp'', ''elapsed'', ''label'', ''responseCode'', ''responseMessage'',
         ''threadName'', ''success'', ''grpThreads'', ''allThreads'', ''Latency'', ''Connect'']]
   \<and> map (\<lambda>r. r ! 2) (csv_rows (snd (run (Begin # suite_calls
       [\<lparr>identity = ''test_add (pkg.module.CalcTest)'', started_ms = 1000, signals = [Success],
          elapsed_ms = 5\<rparr>,
        \<lparr>identity = ''test_sub (pkg.module.CalcTest)'', started_ms = 1010,
          signals = [Failure \<lparr>exc_name = ''ValueError'', exc_value = Instance ''bad input'',
                              format_tb = [''  File calc.py, line 3'']\<rparr>],
          elapsed_ms = 7\<rparr>,
        \<lparr>identity = ''test_mul (pkg.module.CalcTest)'', started_ms = 1020, signals = [Skip],
          elapsed_ms = 0\<rparr>] @ [Finalize]) (init ''out.csv'' ''err.xml''))))
     = [''label'', ''test_add'', ''test_mul'']"
  by code_simp

text \<open>
  C2 does not hold of the code. The test that fails with the exception instance as
  \<open>err[1]\<close> has a failure as its outcome, and the TypeError of line 157 comes before
  \<open>add_sample\<close> at line 176: the diagnostic document receives no entry for it.
\<close>

theorem failing_test_leaves_no_entry:
  "length (entries (snd (run (Begin # suite_calls
       [\<lparr>identity = ''test_sub (pkg.module.CalcTest)'', started_ms = 1010,
          signals = [Failure \<lparr>exc_name = ''ValueError'', exc_value = Instance ''bad input'',
                              format_tb = [''  File calc.py, line 3'']\<rparr>],
          elapsed_ms = 7\<rparr>] @ [Finalize]) (init ''out.csv'' ''err.xml'')))) = 0
   \<and> length (filter outcome_failed
       [\<lparr>identity = ''test_sub (pkg.module.CalcTest)'', started_ms = 1010,
          signals = [Failure \<lparr>exc_name = ''ValueError'', exc_value = Instance ''bad input'',
                              format_tb = [''  File calc.py, line 3'']\<rparr>],
          elapsed_ms = 7\<rparr>]) = 1"
  by code_simp

text \<open>
  C3, as amended. In the row of every completed test (a test whose stop returns, and so
  writes its row), responseCode is the code of the last outcome signal received between
  start and stop, hence one of 200, 300, 404, 500, when the test received a signal, and the
  initial 0 when it received none. The success field is "true" exactly when a success
  signal was received at some point, and "false" otherwise. So responseCode 200 implies
  success "true", and for a test that receives exactly one signal success is "true" if and
  only if responseCode is 200.
\<close>

theorem row_code_and_success:
  "list_all2 (\<lambda>t r.
       r ! 3 = (if signals t = [] then ''0'' else signal_code (last (signals t)))
     \<and> (signals t \<noteq> [] \<longrightarrow> r ! 3 \<in> {''200'', ''300'', ''404'', ''500''})
     \<and> (r ! 6 = ''true'') = (Success \<in> set (signals t))
     \<and> (r ! 6 = ''false'') = (Success \<notin> set (signals t))
     \<and> (r ! 3 = ''200'' \<longrightarrow> r ! 6 = ''true'')
     \<and> (length (signals t) = 1 \<longrightarrow> (r ! 6 = ''true'') = (r ! 3 = ''200'')))
     (filter stop_returns ts)
     (tl (csv_rows (snd (run (Begin # suite_calls ts @ [Finalize]) p))))"
  unfolding rows_whole
proof (rule list_all2_rows, intro conjI impI)
  fix t
  show "row_of t ! 3 = (if signals t = [] then ''0'' else signal_code (last (signals t)))"
    by (rule row_code)
  show "row_of t ! 3 \<in> {''200'', ''300'', ''404'', ''500''}" if "signals t \<noteq> []"
    using that signal_code_cases [of "last (signals t)"] by (simp only: row_code if_False)
  show "(row_of t ! 6 = ''true'') = (Success \<in> set (signals t))"
    by (simp add: row_flag)
  show "(row_of t ! 6 = ''false'') = (Success \<notin> set (signals t))"
    by (simp add: row_flag)
  show "row_of t ! 6 = ''true''" if "row_of t ! 3 = ''200''"
  proof -
    from that have ne: "signals t \<noteq> []" and "signal_code (last (signals t)) = ''200''"
      by (simp_all add: row_code split: if_splits)
    then have "last (signals t) = Success"
      by (simp add: signal_code_200)
    with ne have "Success \<in> set (signals t)"
      using last_in_set by metis
    then show ?thesis
      by (simp add: row_flag)
  qed
  show "(row_of t ! 6 = ''true'') = (row_of t ! 3 = ''200'')" if "length (signals t) = 1"
  proof -
    from that obtain s where s: "signals t = [s]"
      by (cases "signals t") auto
    show ?thesis
      by (simp add: row_code row_flag s signal_code_200 eq_commute)
  qed
qed

text \<open>The amended statement at a run of two tests: a success, then a skip.\<close>

theorem row_code_and_success_witness:
  "signals \<lparr>identity = ''test_mul (pkg.module.CalcTest)'', started_ms = 1020, signals = [Skip],
          elapsed_ms = 0\<rparr> \<noteq> []
   \<and> length (signals \<lparr>identity = ''test_add (pkg.module.CalcTest)'', started_ms = 1000,
          signals = [Success], elapsed_ms = 5\<rparr>) = 1
   \<and> filter stop_returns
       [\<lparr>identity = ''test_add (pkg.module.CalcTest)'', started_ms = 1000, signals = [Success],
          elapsed_ms = 5\<rparr>,
        \<lparr>identity = ''test_mul (pkg.module.CalcTest)'', started_ms = 1020, signals = [Skip],
          elapsed_ms = 0\<rparr>]
     = [\<lparr>identity = ''test_add (pkg.module.CalcTest)'', started_ms = 1000, signals = [Success],
          elapsed_ms = 5\<rparr>,
        \<lparr>identity = ''test_mul (pkg.module.CalcTest)'', started_ms = 1020, signals = [Skip],
          elapsed_ms = 0\<rparr>]
   \<and> tl (csv_rows (snd (run (Begin # suite_calls
       [\<lparr>identity = ''test_add (pkg.module.CalcTest)'', started_ms = 1000, signals = [Success],
          elapsed_ms = 5\<rparr>,
        \<lparr>identity = ''test_mul (pkg.module.CalcTest)'', started_ms = 1020, signals = [Skip],
          elapsed_ms = 0\<rparr>] @ [Finalize]) (init ''out.csv'' ''err.xml'')))) ! 0 ! 3 = ''200''
   \<and> tl (csv_rows (snd (run (Begin # suite_calls
       [\<lparr>identity = ''test_add (pkg.module.CalcTest)'', started_ms = 1000, signals = [Success],
          elapsed_ms = 5\<rparr>,
        \<lparr>identity = ''test_mul (pkg.module.CalcTest)'', started_ms = 1020, signals = [Skip],
          elapsed_ms = 0\<rparr>] @ [Finalize]) (init ''out.csv'' ''err.xml'')))) ! 0 ! 6 = ''true''
   \<and> tl (csv_rows (snd (run (Begin # suite_calls
       [\<lparr>identity = ''test_add (pkg.module.CalcTest)'', started_ms = 1000, signals = [Success],
          elapsed_ms = 5\<rparr>,
        \<lparr>identity = ''test_mul (pkg.module.CalcTest)'', started_ms = 1020, signals = [Skip],
          elapsed_ms = 0\<rparr>] @ [Finalize]) (init ''out.csv'' ''err.xml'')))) ! 1 ! 3 = ''300''
   \<and> tl (csv_rows (snd (run (Begin # suite_calls
       [\<lparr>identity = ''test_add (pkg.module.CalcTest)'', started_ms = 1000, signals = [Success],
          elapsed_ms = 5\<rparr>,
        \<lparr>identity = ''test_mul (pkg.module.CalcTest)'', started_ms = 1020, signals = [Skip],
          elapsed_ms = 0\<rparr>] @ [Finalize]) (init ''out.csv'' ''err.xml'')))) ! 1 ! 6 = ''false''"
proof -
  let ?ts = "[\<lparr>identity = ''test_add (pkg.module.CalcTest)'', started_ms = 1000, signals = [Success],
          elapsed_ms = 5\<rparr>,
        \<lparr>identity = ''test_mul (pkg.module.CalcTest)'', started_ms = 1020, signals = [Skip],
          elapsed_ms = 0\<rparr>]"
  have all: "filter stop_returns ?ts = ?ts"
    by code_simp
  from list_all2_nthD [OF row_code_and_success [of ?ts "init ''out.csv'' ''err.xml''"], of 0]
    list_all2_nthD [OF row_code_and_success [of ?ts "init ''out.csv'' ''err.xml''"], of 1]
  show ?thesis
    unfolding all by (simp del: run.simps)
qed

text \<open>
  C3 as stated fails twice: a test that receives no signal keeps responseCode 0, and a test
  that receives a success and then a skip has responseCode 300 with success "true".
\<close>

theorem row_code_and_success_counterexample:
  "csv_rows (snd (run (Begin # suite_calls
       [\<lparr>identity = ''test_add (pkg.module.CalcTest)'', started_ms = 1000, signals = [],
          elapsed_ms = 5\<rparr>] @ [Finalize]) (init ''out.csv'' ''err.xml''))) ! 1 ! 3
     \<notin> {''200'', ''300'', ''404'', ''500''}
   \<and> csv_rows (snd (run (Begin # suite_calls
       [\<lparr>identity = ''test_add (pkg.module.CalcTest)'', started_ms = 1000,
          signals = [Success, Skip], elapsed_ms = 5\<rparr>] @ [Finalize])
       (init ''out.csv'' ''err.xml''))) ! 1 ! 6 = ''true''
   \<and> csv_rows (snd (run (Begin # suite_calls
       [\<lparr>identity = ''test_add (pkg.module.CalcTest)'', started_ms = 1000,
          signals = [Success, Skip], elapsed_ms = 5\<rparr>] @ [Finalize])
       (init ''out.csv'' ''err.xml''))) ! 1 ! 3 \<noteq> ''200''"
  by code_simp

text \<open>
  C4 does not hold of the code. After a failure that raises ValueError("bad input"), the
  exception is stashed with the instance as \<open>err[1]\<close>; \<open>stopTest\<close> raises TypeError at line
  157, so responseMessage keeps its initial 0 (line 158 is not reached) and no diagnostic
  entry is forwarded.
\<close>

theorem stop_raises_before_report:
  "last_err (snd (run [Begin, StartTest ''test_sub (pkg.module.CalcTest)'' 1010,
        Signal (Failure \<lparr>exc_name = ''ValueError'', exc_value = Instance ''bad input'',
                          format_tb = [''  File calc.py, line 3'']\<rparr>)]
       (init ''out.csv'' ''err.xml'')))
     = Some \<lparr>exc_name = ''ValueError'', exc_value = Instance ''bad input'',
             format_tb = [''  File calc.py, line 3'']\<rparr>
   \<and> fst (stopTest 7 (snd (run [Begin, StartTest ''test_sub (pkg.module.CalcTest)'' 1010,
        Signal (Failure \<lparr>exc_name = ''ValueError'', exc_value = Instance ''bad input'',
                          format_tb = [''  File calc.py, line 3'']\<rparr>)]
       (init ''out.csv'' ''err.xml''))))
     = Raised TypeError
   \<and> Option.bind (jtl_dict (snd (stopTest 7 (snd (run [Begin,
        StartTest ''test_sub (pkg.module.CalcTest)'' 1010,
        Signal (Failure \<lparr>exc_name = ''ValueError'', exc_value = Instance ''bad input'',
                          format_tb = [''  File calc.py, line 3'']\<rparr>)]
       (init ''out.csv'' ''err.xml''))))))
       (\<lambda>d. getitem d ''responseMessage'') = Some (PInt 0)
   \<and> entries (snd (stopTest 7 (snd (run [Begin,
        StartTest ''test_sub (pkg.module.CalcTest)'' 1010,
        Signal (Failure \<lparr>exc_name = ''ValueError'', exc_value = Instance ''bad input'',
                          format_tb = [''  File calc.py, line 3'']\<rparr>)]
       (init ''out.csv'' ''err.xml''))))) = []"
  by code_simp

text \<open>
  C5. A writer opened on a fresh file, any number of \<open>add_sample\<close> calls (none included,
  and whether or not a call raises while it builds its element), then \<open>close\<close>: \<open>close\<close>
  returns, the generator is finished, and the file holds the declaration, the start-tag of
  the single root \<open>testResults\<close> with \<open>version="1.2"\<close>, the entries added, in order, and
  the root's end-tag; its token stream is well formed. The same holds for the diagnostic
  document of every sequential run that reaches \<open>finalize\<close>.
\<close>

theorem diagnostic_document_well_formed:
  "(case JTLErrorWriter_init open_file of
      (Inl e, f) \<Rightarrow> False
    | (Inr w, f) \<Rightarrow>
       (case add_samples xs w f of
          (w', f') \<Rightarrow>
           (case JTLErrorWriter_close w' f' of
              (r, w'', f'') \<Rightarrow>
                r = Returned \<and> xml_writer w'' = Finished
                \<and> written f'' = Declaration # StartElement ''testResults'' [(''version'', ''1.2'')]
                      # map Write (built xs) @ [EndElement ''testResults'']
                \<and> well_formed (document_tokens (written f'')))))
   \<and> xml_items (snd (run (Begin # suite_calls ts @ [Finalize]) p))
       = Declaration # StartElement ''testResults'' [(''version'', ''1.2'')]
           # map Write (entries (snd (run (Begin # suite_calls ts @ [Finalize]) p)))
           @ [EndElement ''testResults'']
   \<and> well_formed (document_tokens (xml_items (snd (run (Begin # suite_calls ts @ [Finalize]) p))))"
proof -
  let ?f0 = "\<lparr>written = [Declaration, StartElement ''testResults'' [(''version'', ''1.2'')]],
       closed = False\<rparr> :: xml_item pyfile"
  let ?w0 = "\<lparr>xml_writer = Suspended\<rparr>"
  have writer: "JTLErrorWriter_init open_file = (Inr ?w0, ?f0)"
    by (simp add: JTLErrorWriter_init_def write_element_next_def file_write_def open_file_def)
  from add_samples_suspended [of ?w0 ?f0 xs] obtain f' where f': "add_samples xs ?w0 ?f0 = (?w0, f')"
    "\<not> closed f'" "written f' = written ?f0 @ map Write (built xs)"
    by auto
  have close: "JTLErrorWriter_close ?w0 f'
      = (Returned, \<lparr>xml_writer = Finished\<rparr>, f'\<lparr>written := written f' @ [EndElement ''testResults'']\<rparr>)"
    using f'(2) by (simp add: JTLErrorWriter_close_def file_write_def)
  have first: "(case JTLErrorWriter_init open_file of
      (Inl e, f) \<Rightarrow> False
    | (Inr w, f) \<Rightarrow>
       (case add_samples xs w f of
          (w', f') \<Rightarrow>
           (case JTLErrorWriter_close w' f' of
              (r, w'', f'') \<Rightarrow>
                r = Returned \<and> xml_writer w'' = Finished
                \<and> written f'' = Declaration # StartElement ''testResults'' [(''version'', ''1.2'')]
                      # map Write (built xs) @ [EndElement ''testResults'']
                \<and> well_formed (document_tokens (written f'')))))"
    unfolding writer using well_formed_document [of "''testResults''" "[(''version'', ''1.2'')]" "built xs"]
    by (simp add: f' close)
  from run_whole [of ts p] obtain q where q:
    "run (Begin # suite_calls ts @ [Finalize]) p =
       (Returned # concat (map test_outcomes ts) @
          [if test_count p + int (length ts) = 0 then Raised (RuntimeError ''Nothing to test.'')
           else Returned], q)"
    "xml_items q = Declaration # StartElement ''testResults'' [(''version'', ''1.2'')]
           # map Write (concat (map entries_of (filter completes ts))) @ [EndElement ''testResults'']"
    by blast
  have q': "snd (run (Begin # suite_calls ts @ [Finalize]) p) = q"
    by (simp only: q(1) snd_conv)
  have second: "xml_items (snd (run (Begin # suite_calls ts @ [Finalize]) p))
       = Declaration # StartElement ''testResults'' [(''version'', ''1.2'')]
           # map Write (entries (snd (run (Begin # suite_calls ts @ [Finalize]) p)))
           @ [EndElement ''testResults'']"
    unfolding entries_whole filter_stop_returns unfolding q' by (rule q(2))
  have third: "well_formed (document_tokens (xml_items (snd (run (Begin # suite_calls ts @ [Finalize]) p))))"
    unfolding q' q(2) by (rule well_formed_document)
  show ?thesis
    using first second third by (intro conjI)
qed

text \<open>
  C6. The identity string "test_add (pkg.module.CalcTest)": the method pattern yields
  "test_add", the file and class patterns yield "pkg" and "module.CalcTest", and
  \<open>startTest\<close> stores the label "test_add" and the thread-group name
  "pkg.module.CalcTest", in the plugin and in the record of the test.
\<close>

theorem scenario_a_identity:
  "first_or_empty (findall SEARCH_method ''test_add (pkg.module.CalcTest)'') = ''test_add''
   \<and> first_or_empty (findall SEARCH_file ''test_add (pkg.module.CalcTest)'') @ ''.''
       @ first_or_empty (findall SEARCH_class ''test_add (pkg.module.CalcTest)'')
       = ''pkg.module.CalcTest''
   \<and> fst (startTest ''test_add (pkg.module.CalcTest)'' ts p) = Returned
   \<and> method_name (snd (startTest ''test_add (pkg.module.CalcTest)'' ts p)) = Some ''test_add''
   \<and> module_name' (snd (startTest ''test_add (pkg.module.CalcTest)'' ts p))
       = Some ''pkg.module.CalcTest''
   \<and> Option.bind (jtl_dict (snd (startTest ''test_add (pkg.module.CalcTest)'' ts p)))
        (\<lambda>d. getitem d ''label'') = Some (PStr ''test_add'')
   \<and> Option.bind (jtl_dict (snd (startTest ''test_add (pkg.module.CalcTest)'' ts p)))
        (\<lambda>d. getitem d ''threadName'') = Some (PStr ''pkg.module.CalcTest'')"
  by (simp add: startTest_eq getitem_mk_dict label_of_def thread_name_of_def scenario_a_parts
      first_or_empty_def)

text \<open>
  C7. \<open>finalize\<close> at the end of a sequential run: it raises the empty-run error
  RuntimeError("Nothing to test.") if and only if the counter of tests run is zero, and
  returns otherwise. In both cases the state it leaves has the generator of the diagnostic
  writer finished, the root end-tag written at the end of the diagnostic document, and both
  streams closed: the closes come before the raise. The counter counts every test of the
  run, and every call before \<open>finalize\<close> returns exactly when every stop returns. A run of
  no test from a new plugin raises the error.
\<close>

theorem finalize_empty_run:
  "(let q = snd (run (Begin # suite_calls ts) p) in
      hd (fst (run (Begin # suite_calls ts) p)) = Returned
    \<and> list_all (\<lambda>r. r = Returned) (fst (run (Begin # suite_calls ts) p))
        = list_all stop_returns ts
    \<and> test_count q = test_count p + int (length ts)
    \<and> snd (run (Begin # suite_calls ts @ [Finalize]) p) = snd (finalize q)
    \<and> last (fst (run (Begin # suite_calls ts @ [Finalize]) p)) = fst (finalize q)
    \<and> fst (finalize q)
        = (if test_count q = 0 then Raised (RuntimeError ''Nothing to test.'') else Returned)
    \<and> (fst (finalize q) = Raised (RuntimeError ''Nothing to test.'')) = (test_count q = 0)
    \<and> (fst (finalize q) = Returned) = (test_count q \<noteq> 0)
    \<and> error_writer (snd (finalize q)) = Some \<lparr>xml_writer = Finished\<rparr>
    \<and> err_stream (snd (finalize q))
        = Some \<lparr>written = xml_items q @ [EndElement ''testResults''], closed = True\<rparr>
    \<and> out_stream (snd (finalize q)) = Some \<lparr>written = csv_rows q, closed = True\<rparr>)
   \<and> fst (run [Begin, Finalize] (init output_file' err_file'))
       = [Returned, Raised (RuntimeError ''Nothing to test.'')]"
proof -
  from run_begin_suite [of ts p] obtain b where
    b: "run (Begin # suite_calls ts) p = (Returned # concat (map test_outcomes ts), b)"
    "ready b" "test_count b = test_count p + int (length ts)"
    by blast
  from finalize_eq [OF b(2)] obtain f x where fin: "out_stream b = Some f" "err_stream b = Some x"
     "finalize b =
       (if test_count b = 0 then Raised (RuntimeError ''Nothing to test.'') else Returned,
        b\<lparr>error_writer := Some \<lparr>xml_writer = Finished\<rparr>,
          err_stream := Some \<lparr>written = written x @ [EndElement ''testResults''], closed = True\<rparr>,
          out_stream := Some \<lparr>written = written f, closed = True\<rparr>\<rparr>)"
    by blast
  have calls: "Begin # suite_calls ts @ [Finalize] = (Begin # suite_calls ts) @ [Finalize]"
    by simp
  have whole: "run (Begin # suite_calls ts @ [Finalize]) p =
      (Returned # concat (map test_outcomes ts) @ [fst (finalize b)], snd (finalize b))"
    unfolding calls run_append b(1) by (simp split: prod.splits)
  have outs: "list_all (\<lambda>r. r = Returned) (concat (map test_outcomes ts)) = list_all stop_returns ts"
    by (induction ts)
       (simp_all add: test_outcomes_def stop_outcome_Returned stop_returns_eq all_replicate)
  have q: "snd (run (Begin # suite_calls ts) p) = b"
    and o: "fst (run (Begin # suite_calls ts) p) = Returned # concat (map test_outcomes ts)"
    by (simp_all only: b(1) snd_conv fst_conv)
  have first: "(let q = snd (run (Begin # suite_calls ts) p) in
      hd (fst (run (Begin # suite_calls ts) p)) = Returned
    \<and> list_all (\<lambda>r. r = Returned) (fst (run (Begin # suite_calls ts) p))
        = list_all stop_returns ts
    \<and> test_count q = test_count p + int (length ts)
    \<and> snd (run (Begin # suite_calls ts @ [Finalize]) p) = snd (finalize q)
    \<and> last (fst (run (Begin # suite_calls ts @ [Finalize]) p)) = fst (finalize q)
    \<and> fst (finalize q)
        = (if test_count q = 0 then Raised (RuntimeError ''Nothing to test.'') else Returned)
    \<and> (fst (finalize q) = Raised (RuntimeError ''Nothing to test.'')) = (test_count q = 0)
    \<and> (fst (finalize q) = Returned) = (test_count q \<noteq> 0)
    \<and> error_writer (snd (finalize q)) = Some \<lparr>xml_writer = Finished\<rparr>
    \<and> err_stream (snd (finalize q))
        = Some \<lparr>written = xml_items q @ [EndElement ''testResults''], closed = True\<rparr>
    \<and> out_stream (snd (finalize q)) = Some \<lparr>written = csv_rows q, closed = True\<rparr>)"
    unfolding q o Let_def whole
    by (simp add: b(3) fin outs csv_rows_def xml_items_def del: run.simps)
  from run_whole [of "[]" "init output_file' err_file'"]
  have second: "fst (run [Begin, Finalize] (init output_file' err_file'))
       = [Returned, Raised (RuntimeError ''Nothing to test.'')]"
    by (auto simp add: suite_calls_def init_def simp del: run.simps)
  show ?thesis
    using first second by (rule conjI)
qed

text \<open>
  C8, as amended. The label of every row is the first match of the method pattern in the
  identity string, or the empty string when the pattern does not match. For an identity
  string that begins with a method name free of spaces and newlines followed by a space, the
  label is that name (non-empty when the name is); for an identity string with no space the
  label is the empty string.
\<close>

theorem label_from_identity:
  "list_all2 (\<lambda>t r. r ! 2 = first_or_empty (findall SEARCH_method (identity t)))
     (filter stop_returns ts)
     (tl (csv_rows (snd (run (Begin # suite_calls ts @ [Finalize]) p))))
   \<and> (CHR '' '' \<notin> set m \<and> CHR 0x0A \<notin> set m \<longrightarrow>
        first_or_empty (findall SEARCH_method (m @ CHR '' '' # rest)) = m)
   \<and> (CHR '' '' \<notin> set s \<longrightarrow> first_or_empty (findall SEARCH_method s) = [])"
proof (intro conjI impI)
  show "list_all2 (\<lambda>t r. r ! 2 = first_or_empty (findall SEARCH_method (identity t)))
     (filter stop_returns ts)
     (tl (csv_rows (snd (run (Begin # suite_calls ts @ [Finalize]) p))))"
    unfolding rows_whole
    by (rule list_all2_rows) (simp add: row_of_nth label_of_def)
  show "first_or_empty (findall SEARCH_method (m @ CHR '' '' # rest)) = m"
    if "CHR '' '' \<notin> set m \<and> CHR 0x0A \<notin> set m"
    using that by (simp add: findall_method_prefix first_or_empty_def)
  show "first_or_empty (findall SEARCH_method s) = []" if "CHR '' '' \<notin> set s"
    using that by (simp add: findall_method_none first_or_empty_def)
qed

text \<open>The amended statement at the conventional identity and at one without a space.\<close>

theorem label_from_identity_witness:
  "CHR '' '' \<notin> set ''test_add'' \<and> CHR 0x0A \<notin> set ''test_add''
   \<and> first_or_empty (findall SEARCH_method (''test_add'' @ CHR '' '' # ''(pkg.module.CalcTest)''))
       = ''test_add''
   \<and> CHR '' '' \<notin> set ''pkg.module.test_func''
   \<and> first_or_empty (findall SEARCH_method ''pkg.module.test_func'') = []"
  using label_from_identity [of "[]" "init [] []" "''test_add''" "''(pkg.module.CalcTest)''"
      "''pkg.module.test_func''"]
  by (simp del: run.simps)

text \<open>
  C8 as stated fails: the identity string of a test function, "pkg.module.test_func", has
  no space, and its row has the empty label.
\<close>

theorem label_from_identity_counterexample:
  "csv_rows (snd (run (Begin # suite_calls
       [\<lparr>identity = ''pkg.module.test_func'', started_ms = 1000, signals = [Success],
          elapsed_ms = 5\<rparr>] @ [Finalize]) (init ''out.csv'' ''err.xml''))) ! 1 ! 2 = []"
  by code_simp

text \<open>
  C9 does not hold of the code. A failure with the exception instance as \<open>err[1]\<close>,
  followed by a skip: the skip leaves the stashed exception and sets responseCode 300, and
  the stop then raises TypeError at line 157; no entry is emitted and responseMessage is
  not overwritten.
\<close>

theorem skip_after_failure_stop_raises:
  "fst (run (Begin # suite_calls
       [\<lparr>identity = ''test_sub (pkg.module.CalcTest)'', started_ms = 1010,
          signals = [Failure \<lparr>exc_name = ''ValueError'', exc_value = Instance ''bad input'',
                              format_tb = [''  File calc.py, line 3'']\<rparr>, Skip],
          elapsed_ms = 7\<rparr>] @ [Finalize]) (init ''out.csv'' ''err.xml''))
     = [Returned, Returned, Returned, Returned, Raised TypeError, Returned]
   \<and> entries (snd (run (Begin # suite_calls
       [\<lparr>identity = ''test_sub (pkg.module.CalcTest)'', started_ms = 1010,
          signals = [Failure \<lparr>exc_name = ''ValueError'', exc_value = Instance ''bad input'',
                              format_tb = [''  File calc.py, line 3'']\<rparr>, Skip],
          elapsed_ms = 7\<rparr>] @ [Finalize]) (init ''out.csv'' ''err.xml''))) = []
   \<and> Option.bind (jtl_dict (snd (run (Begin # suite_calls
       [\<lparr>identity = ''test_sub (pkg.module.CalcTest)'', started_ms = 1010,
          signals = [Failure \<lparr>exc_name = ''ValueError'', exc_value = Instance ''bad input'',
                              format_tb = [''  File calc.py, line 3'']\<rparr>, Skip],
          elapsed_ms = 7\<rparr>] @ [Finalize]) (init ''out.csv'' ''err.xml''))))
       (\<lambda>d. getitem d ''responseMessage'') = Some (PInt 0)
   \<and> Option.bind (jtl_dict (snd (run (Begin # suite_calls
       [\<lparr>identity = ''test_sub (pkg.module.CalcTest)'', started_ms = 1010,
          signals = [Failure \<lparr>exc_name = ''ValueError'', exc_value = Instance ''bad input'',
                              format_tb = [''  File calc.py, line 3'']\<rparr>, Skip],
          elapsed_ms = 7\<rparr>] @ [Finalize]) (init ''out.csv'' ''err.xml''))))
       (\<lambda>d. getitem d ''responseCode'') = Some (PStr ''300'')"
  by code_simp

text \<open>
  C10. The thread-group name is the file part, a dot, the class part: in column threadName
  of every row, in the \<open>tn\<close> attribute of every diagnostic entry (one for each test that
  received a failure or error signal and whose stop returns), and in the plugin after
  \<open>startTest\<close>. It contains a dot and is not empty; when neither pattern matches it is the
  string ".".
\<close>

theorem thread_group_name:
  "list_all2 (\<lambda>t r. r ! 5 = first_or_empty (findall SEARCH_file (identity t)) @ ''.''
                     @ first_or_empty (findall SEARCH_class (identity t)))
     (filter stop_returns ts)
     (tl (csv_rows (snd (run (Begin # suite_calls ts @ [Finalize]) p))))
   \<and> map (\<lambda>e. map_of (attrib e) ''tn'') (entries (snd (run (Begin # suite_calls ts @ [Finalize]) p)))
       = map (\<lambda>t. Some (first_or_empty (findall SEARCH_file (identity t)) @ ''.''
                     @ first_or_empty (findall SEARCH_class (identity t))))
           (filter received_failure (filter stop_returns ts))
   \<and> module_name' (snd (startTest s started p))
       = Some (first_or_empty (findall SEARCH_file s) @ ''.'' @ first_or_empty (findall SEARCH_class s))
   \<and> CHR ''.'' \<in> set (first_or_empty (findall SEARCH_file s) @ ''.''
                     @ first_or_empty (findall SEARCH_class s))
   \<and> first_or_empty (findall SEARCH_file s) @ ''.'' @ first_or_empty (findall SEARCH_class s) \<noteq> []
   \<and> (findall SEARCH_file s = [] \<and> findall SEARCH_class s = [] \<longrightarrow>
        module_name' (snd (startTest s started p)) = Some ''.''
        \<and> first_or_empty (findall SEARCH_file s) @ ''.'' @ first_or_empty (findall SEARCH_class s)
            = ''.'')"
proof (intro conjI impI)
  show "list_all2 (\<lambda>t r. r ! 5 = first_or_empty (findall SEARCH_file (identity t)) @ ''.''
                     @ first_or_empty (findall SEARCH_class (identity t)))
     (filter stop_returns ts)
     (tl (csv_rows (snd (run (Begin # suite_calls ts @ [Finalize]) p))))"
    unfolding rows_whole
    by (rule list_all2_rows) (simp add: row_of_nth thread_name_of_def)
  show "map (\<lambda>e. map_of (attrib e) ''tn'') (entries (snd (run (Begin # suite_calls ts @ [Finalize]) p)))
       = map (\<lambda>t. Some (first_or_empty (findall SEARCH_file (identity t)) @ ''.''
                     @ first_or_empty (findall SEARCH_class (identity t))))
           (filter received_failure (filter stop_returns ts))"
    unfolding entries_whole
    by (rule map_entries_suite) (simp add: entry_of_def sample_element_parts thread_name_of_def)
  show "module_name' (snd (startTest s started p))
       = Some (first_or_empty (findall SEARCH_file s) @ ''.'' @ first_or_empty (findall SEARCH_class s))"
    by (simp add: startTest_eq thread_name_of_def)
  show "CHR ''.'' \<in> set (first_or_empty (findall SEARCH_file s) @ ''.''
                     @ first_or_empty (findall SEARCH_class s))"
    by simp
  show "first_or_empty (findall SEARCH_file s) @ ''.'' @ first_or_empty (findall SEARCH_class s) \<noteq> []"
    by simp
  show "module_name' (snd (startTest s started p)) = Some ''.''"
    if "findall SEARCH_file s = [] \<and> findall SEARCH_class s = []"
    using that by (simp add: startTest_eq thread_name_of_def first_or_empty_def)
  show "first_or_empty (findall SEARCH_file s) @ ''.'' @ first_or_empty (findall SEARCH_class s) = ''.''"
    if "findall SEARCH_file s = [] \<and> findall SEARCH_class s = []"
    using that by (simp add: first_or_empty_def)
qed

text \<open>The statement at an identity string that neither pattern matches.\<close>

theorem thread_group_name_witness:
  "findall SEARCH_file ''test_func'' = [] \<and> findall SEARCH_class ''test_func'' = []
   \<and> module_name' (snd (startTest ''test_func'' 1000 (init ''out.csv'' ''err.xml''))) = Some ''.''
   \<and> first_or_empty (findall SEARCH_file ''test_func'') @ ''.''
       @ first_or_empty (findall SEARCH_class ''test_func'') = ''.''"
proof -
  have h: "findall SEARCH_file ''test_func'' = [] \<and> findall SEARCH_class ''test_func'' = []"
    by code_simp
  from thread_group_name [of "[]" "init ''out.csv'' ''err.xml''" "''test_func''" 1000] h
  show ?thesis
    by (simp del: run.simps)
qed

end
